theory Spec2Isabelle
  imports Complex_Main "HOL-Library.Multiset"
begin

section \<open>The task dashboard client (static/js/app.js)\<close>

text \<open>
  The client is a single page: page-wide variables (the task cache, the session, the
  filters), the DOM, and event handlers. Handlers run to completion; a backend request
  only registers a continuation, which runs later, as an event of its own, when the
  answer arrives. The model follows that shape:
  \<^item> the page-wide variables and the parts of the DOM the handlers write are one record,
    \<open>app\<close>, passed through every function;
  \<^item> \<open>apiFetch\<close> appends the request to the log \<open>requests\<close> and to the list \<open>pending\<close>,
    with the continuation that waits for it;
  \<^item> \<open>deliver\<close> is the arrival of an answer: it runs what \<open>apiFetch\<close> does with the answer
    and then the \<open>.then\<close> or \<open>.catch\<close> handler of the waiting continuation;
  \<^item> a JavaScript exception is a value: a function that can throw returns a
    \<open>completion\<close>, \<open>Throw\<close> carrying the state reached when the exception was raised.

  Strings are \<open>string\<close>, identifiers are \<open>int\<close>, amounts are \<open>rat\<close>. A \<open>Date\<close> is its time
  value in milliseconds, \<open>None\<close> for an invalid date (whose time value is NaN, so that
  every comparison with it is false).

  Of the DOM the record keeps what the properties below read: which elements carry the
  class \<open>hidden\<close>, which modals are displayed, the rows, cards and items of the
  containers with their buttons and status selects, the texts of the counters, the form
  and the filter controls. Left out are the option lists of the pickers, the staff cards,
  the service form and tooltip, the search boxes (they only hide rendered rows) and the
  prompt dialogs of \<open>showAddStaffForm\<close>; the elements that the script looks up by id or
  by \<open>data-page\<close> are taken to exist. Field names that two records would share carry
  a suffix.
\<close>

subsection \<open>Data\<close>

type_synonym jsdate = "int option"

record task =
  task_id :: int
  orderNo :: string
  customerName :: string
  contactNumber :: string
  serviceType :: string
  status :: string
  assignedTo :: string
  branch :: string
  paymode :: string
  servicePrice :: rat
  paidAmount :: rat
  serviceCharge :: rat
  description :: string
  edited :: bool
  editReason :: "string option"
  sharedWith :: "string list"
  date :: string
  timestamp :: jsdate
  takenOverBy :: "string option"

text \<open>
  A task as the backend sends it. \<open>shared_with\<close> is \<open>None\<close> when the JSON value is not an
  array. Fields whose name the cached task already uses carry the suffix \<open>_b\<close>.
\<close>

record backendTask =
  id_b :: int
  order_no :: string
  customer_name :: string
  contact_number :: string
  service_type :: string
  status_b :: string
  assigned_to :: string
  branch_code :: string
  paymode_b :: string
  service_price :: rat
  paid_amount :: rat
  service_charge :: rat
  description_b :: string
  edited_b :: bool
  edit_reason :: "string option"
  shared_with :: "string list option"
  task_date :: string
  created_at :: jsdate

record service =
  service_id :: int
  name :: string
  price :: rat
  fee :: rat
  charge :: rat
  link :: string
  note_s :: string

record user =
  user_id :: int
  username :: string
  role :: string
  email :: string

record staff =
  staff_name :: string
  staff_role :: string
  staff_email :: string

record filters =
  dateFilter :: string
  branchFilter :: string
  staffFilter :: string
  statusFilter :: string
  serviceFilter :: string

text \<open>The values of the task form's inputs; a numeric input is what \<open>parseFloat\<close> returns, \<open>None\<close> for NaN.\<close>

record taskForm =
  branchCode_f :: string
  customerName_f :: string
  contactNumber_f :: string
  serviceType_f :: string
  assignedTo_f :: string
  paymode_f :: string
  servicePrice_f :: "rat option"
  paidAmount_f :: "rat option"
  serviceCharge_f :: "rat option"
  description_f :: string

record taskPayload =
  customer_name_p :: string
  contact_number_p :: string
  service_type_p :: string
  assigned_to_p :: string
  branch_code_p :: string
  paymode_p :: string
  service_price_p :: rat
  paid_amount_p :: rat
  service_charge_p :: rat
  description_p :: string

record stats =
  total_tasks :: int
  tasks_today :: int
  completed_tasks :: int
  total_revenue :: "rat option"

record winner =
  winner_name :: string
  winner_completed :: int
  winner_revenue :: "rat option"
  winner_score :: rat

subsection \<open>Requests, answers and continuations\<close>

datatype http_method = GET | POST | PUT | DELETE

datatype endpoint =
    ApiLogin | ApiLogout | ApiUsers
  | ApiTasks | ApiTask int | ApiTaskShare "int option"
  | ApiServices | ApiService int
  | ApiStats | ApiTopPerformers | ApiOverdueTasks

datatype body =
    NoBody
  | LoginBody string string
  | TaskBody taskPayload
  | TaskEditBody taskPayload string
  | StatusBody string
  | ShareBody string

record request =
  req_method :: http_method
  req_url :: endpoint
  req_body :: body

datatype payload =
    NoData
  | LoginData "user option"
  | UsersData "user list"
  | TasksData "backendTask list"
  | ServicesData "service list"
  | StatsData stats
  | TopData "winner list"
  | OverdueData "(backendTask \<times> int) list"

text \<open>
  An answer: a 2xx response with its JSON, a 401, or any other failure (a non-2xx
  status or a network error) with the message of the \<open>Error\<close> that \<open>apiFetch\<close> throws.
\<close>

datatype response = Ok payload | Unauthorized | Failed string

datatype error = TypeError | ApiError string

fun message :: "error \<Rightarrow> string" where
  "message TypeError = ''TypeError''"
| "message (ApiError m) = m"

datatype 'a completion = Normal 'a | Throw error 'a

text \<open>
  What waits for an answer, with the variables its closure captured:
  \<open>K_status id taskIndex oldStatus newStatus\<close>, \<open>K_deleteTask id\<close>, \<open>K_share staffName\<close>;
  \<open>K_fetchTasks True\<close> is the refetch inside \<open>shareTask\<close>'s chain, which updates the
  staff panel afterwards.
\<close>

datatype cont =
    K_login | K_logout | K_usersDropdown | K_usersList
  | K_fetchTasks bool | K_services
  | K_saveTask | K_deleteTask int | K_share string
  | K_status int nat string string
  | K_stats | K_top | K_overdue

subsection \<open>The DOM\<close>

datatype element =
    LoginPage | Navigation | DashboardPage | TasksPage | StaffPage | ReportsPage
  | DatabasePage | StaffPanelPage | StaffNav | ReportsNav | DatabaseNav | RevenueCard
  | ActionsHeader | AddStaffBtn | AddServiceBtn | TaskFormContainer
  | OverdueTasksContainer | WinnersContainer

datatype modal = EditReasonModal | ShareTaskModal | StatusUpdateModal

text \<open>The controls of an actions cell or of a task card, in the order of the markup.\<close>

datatype control = EditBtn | DeleteBtn | ShareBtn | TakeoverBtn | StatusSelect string

record row =
  row_task :: task
  editIndicator :: bool
  controls :: "control list"

record card =
  card_task :: task
  card_type :: string
  takenOverBadge :: bool
  card_controls :: "control list"

record serviceItem =
  item_service :: service
  item_controls :: "control list"
  duplicate :: bool

record staffItem =
  item_staff :: string
  selected :: bool

record winnerCard =
  place :: nat
  card_winner :: winner
  card_revenue :: "rat option"

record reportCard =
  report_name :: string
  report_total :: nat
  report_completed :: nat
  report_revenue :: "rat option"

datatype overdueRow = ClientOverdue task int | BackendOverdue backendTask int

datatype container = TaskTableBody | AllTasksContainer | MyTasksContainer | ExtraTasksContainer

subsection \<open>The state of the page\<close>

record app =
  tasks :: "task list"
  serviceDatabase :: "service list"
  STAFF_LIST :: "staff list"
  currentUser :: "user option"
  currentPage :: string
  editingTaskId :: "int option"
  currentEditReason :: string
  sharingTaskId :: "int option"
  currentFilters :: filters
  requests :: "request list"
  pending :: "(request \<times> cont) list"
  toasts :: "(string \<times> string) list"
  hiddenEls :: "element set"
  openModals :: "modal set"
  taskTableBody :: "row list"
  recentTasksTable :: "row list"
  overdueTasksTable :: "overdueRow list"
  allTasksContainer :: "card list"
  myTasksContainer :: "card list"
  extraTasksContainer :: "card list"
  serviceListContainer :: "serviceItem list"
  staffListModal :: "staffItem list"
  winnersCards :: "winnerCard list"
  totalRevenue :: "rat option"
  dashboardCounters :: "(int \<times> int \<times> int) option"
  staffPerformanceCards :: "reportCard list"
  staffAlertsContainer :: "(string \<times> task list) list"
  staffPanelCounters :: "(string \<times> nat \<times> nat \<times> nat \<times> nat) option"
  statusUpdateText :: "(string \<times> string) option"
  editReason_input :: string
  taskFormValues :: taskForm
  formTitle :: string
  filterControls :: filters
  customDate :: "jsdate option"

text \<open>
  What a handler reads from outside the page: the clock (\<open>new Date()\<close>, read once for
  a handler, the time it takes to run being no time), the local
  calendar (\<open>startOfDay t\<close> is local midnight of the day of \<open>t\<close>, \<open>addDays t k\<close> is
  \<open>setDate(getDate() + k)\<close>), and the document order of the four containers that hold
  status selects, which the markup fixes.
\<close>

record env =
  now :: int
  startOfDay :: "int \<Rightarrow> int"
  addDays :: "int \<Rightarrow> int \<Rightarrow> int"
  docOrder :: "container list"

subsection \<open>Small helpers\<close>

fun stateOf :: "'a completion \<Rightarrow> 'a" where
  "stateOf (Normal s) = s"
| "stateOf (Throw err s) = s"

fun threw :: "'a completion \<Rightarrow> bool" where
  "threw (Normal s) = False"
| "threw (Throw err s) = True"

text \<open>\<open>findIndex\<close> returns \<open>None\<close> where JavaScript returns \<open>-1\<close>; \<open>find_js\<close> returns \<open>None\<close> for \<open>undefined\<close>.\<close>

fun findIndex :: "('a \<Rightarrow> bool) \<Rightarrow> 'a list \<Rightarrow> nat option" where
  "findIndex P [] = None"
| "findIndex P (x # xs) = (if P x then Some 0 else map_option Suc (findIndex P xs))"

fun find_js :: "('a \<Rightarrow> bool) \<Rightarrow> 'a list \<Rightarrow> 'a option" where
  "find_js P [] = None"
| "find_js P (x # xs) = (if P x then Some x else find_js P xs)"

text \<open>
  A \<open>forEach\<close> whose body builds one element and appends it to a container: it stops at
  the first exception, with the elements appended so far.
\<close>

fun forEachAppend :: "('a \<Rightarrow> error + 'b) \<Rightarrow> 'a list \<Rightarrow> 'b list \<Rightarrow> error option \<times> 'b list" where
  "forEachAppend f [] acc = (None, acc)"
| "forEachAppend f (x # xs) acc =
     (case f x of Inl err \<Rightarrow> (Some err, acc) | Inr y \<Rightarrow> forEachAppend f xs (acc @ [y]))"

text \<open>\<open>String.prototype.toLowerCase\<close> and \<open>trim\<close>, on ASCII strings.\<close>

definition lowerChar :: "char \<Rightarrow> char" where
  "lowerChar c = (let n = (of_char c :: nat) in if 65 \<le> n \<and> n \<le> 90 then char_of (n + 32) else c)"

definition toLowerCase :: "string \<Rightarrow> string" where
  "toLowerCase str = map lowerChar str"

definition isWhiteSpace :: "char \<Rightarrow> bool" where
  "isWhiteSpace c = ((of_char c :: nat) \<in> {9, 10, 11, 12, 13, 32})"

definition trim :: "string \<Rightarrow> string" where
  "trim str = rev (dropWhile isWhiteSpace (rev (dropWhile isWhiteSpace str)))"

text \<open>
  \<open>Array.prototype.sort\<close> with a comparator. The sort is stable, so for a consistent
  comparator its result is the one of this insertion sort; a comparator that returns NaN
  (an invalid date) counts as 0, and for the then possibly inconsistent comparator the
  language leaves the order to the implementation: the model takes this one.
\<close>

fun insertBy :: "('a \<Rightarrow> 'a \<Rightarrow> int) \<Rightarrow> 'a \<Rightarrow> 'a list \<Rightarrow> 'a list" where
  "insertBy cmp x [] = [x]"
| "insertBy cmp x (y # ys) = (if cmp x y \<le> 0 then x # y # ys else y # insertBy cmp x ys)"

definition sortBy :: "('a \<Rightarrow> 'a \<Rightarrow> int) \<Rightarrow> 'a list \<Rightarrow> 'a list" where
  "sortBy cmp xs = foldr (insertBy cmp) xs []"

text \<open>Comparisons of dates: false as soon as one side is invalid.\<close>

fun geD :: "jsdate \<Rightarrow> jsdate \<Rightarrow> bool" where
  "geD (Some a) (Some b) = (a \<ge> b)"
| "geD _ _ = False"

fun ltD :: "jsdate \<Rightarrow> jsdate \<Rightarrow> bool" where
  "ltD (Some a) (Some b) = (a < b)"
| "ltD _ _ = False"

definition showToast :: "string \<Rightarrow> string \<Rightarrow> app \<Rightarrow> app" where
  "showToast msg type s = s\<lparr>toasts := toasts s @ [(msg, type)]\<rparr>"

definition hide :: "element \<Rightarrow> app \<Rightarrow> app" where
  "hide el s = s\<lparr>hiddenEls := insert el (hiddenEls s)\<rparr>"

definition unhide :: "element \<Rightarrow> app \<Rightarrow> app" where
  "unhide el s = s\<lparr>hiddenEls := hiddenEls s - {el}\<rparr>"

definition openModal :: "modal \<Rightarrow> app \<Rightarrow> app" where
  "openModal m s = s\<lparr>openModals := insert m (openModals s)\<rparr>"

definition closeModal :: "modal \<Rightarrow> app \<Rightarrow> app" where
  "closeModal m s = s\<lparr>openModals := openModals s - {m}\<rparr>"

text \<open>
  \<open>apiFetch\<close> up to its \<open>await fetch\<close>: the request is sent and the caller's continuation
  waits. What it does with the answer is in \<open>deliver\<close>.
\<close>

definition apiFetch :: "http_method \<Rightarrow> endpoint \<Rightarrow> body \<Rightarrow> cont \<Rightarrow> app \<Rightarrow> app" where
  "apiFetch m url b k s =
     (let r = \<lparr>req_method = m, req_url = url, req_body = b\<rparr>
      in s\<lparr>requests := requests s @ [r], pending := pending s @ [(r, k)]\<rparr>)"

subsection \<open>Mapping between backend and cache\<close>

definition mapBackendTaskToUI :: "backendTask \<Rightarrow> task" where
  "mapBackendTaskToUI t =
     \<lparr>task_id = id_b t,
      orderNo = order_no t,
      customerName = customer_name t,
      contactNumber = contact_number t,
      serviceType = service_type t,
      status = status_b t,
      assignedTo = assigned_to t,
      branch = branch_code t,
      paymode = paymode_b t,
      servicePrice = service_price t,
      paidAmount = paid_amount t,
      serviceCharge = service_charge t,
      description = description_b t,
      edited = edited_b t,
      editReason = edit_reason t,
      sharedWith = (case shared_with t of Some names \<Rightarrow> names | None \<Rightarrow> []),
      date = task_date t,
      timestamp = created_at t,
      takenOverBy = None\<rparr>"

text \<open>\<open>parseFloat(...) || 0\<close>.\<close>

fun orZero :: "rat option \<Rightarrow> rat" where
  "orZero None = 0"
| "orZero (Some x) = x"

text \<open>
  \<open>saveTask\<close> builds \<open>taskData\<close> from the form and maps it; \<open>taskData\<close> has no \<open>branch\<close>, so
  \<open>d.branchCode || d.branch\<close> is the form's branch code.
\<close>

definition mapUIToBackendTask :: "taskForm \<Rightarrow> taskPayload" where
  "mapUIToBackendTask d =
     \<lparr>customer_name_p = customerName_f d,
      contact_number_p = contactNumber_f d,
      service_type_p = serviceType_f d,
      assigned_to_p = assignedTo_f d,
      branch_code_p = branchCode_f d,
      paymode_p = paymode_f d,
      service_price_p = orZero (servicePrice_f d),
      paid_amount_p = orZero (paidAmount_f d),
      service_charge_p = orZero (serviceCharge_f d),
      description_p = description_f d\<rparr>"

subsection \<open>Rendering the task table\<close>

definition statusOptions :: "string list" where
  "statusOptions = [''Received'', ''Pending'', ''In Progress'', ''Completed'', ''Hold'', ''Cancelled'']"

text \<open>
  The status select as the markup creates it: the option equal to the task's status is
  \<open>selected\<close>; when none is, the select shows its first option.
\<close>

definition statusSelect :: "string \<Rightarrow> control" where
  "statusSelect st = StatusSelect (if st \<in> set statusOptions then st else ''Received'')"

definition createTaskRow :: "app \<Rightarrow> task \<Rightarrow> bool \<Rightarrow> error + row" where
  "createTaskRow s t includeActions =
     (let r = \<lparr>row_task = t, editIndicator = edited t, controls = []\<rparr>
      in if \<not> includeActions then Inr r
         else case currentUser s of
           None \<Rightarrow> Inl TypeError
         | Some u \<Rightarrow>
             if role u = ''admin'' then Inr (r\<lparr>controls := [EditBtn, DeleteBtn, ShareBtn]\<rparr>)
             else if role u = ''manager'' then Inr (r\<lparr>controls := [EditBtn, ShareBtn]\<rparr>)
             else if assignedTo t = username u \<or> username u \<in> set (sharedWith t)
               then Inr (r\<lparr>controls := [EditBtn, ShareBtn, statusSelect (status t)]\<rparr>)
               else Inr (r\<lparr>controls := [statusSelect (status t), ShareBtn]\<rparr>))"

definition filterTasksByDate :: "env \<Rightarrow> app \<Rightarrow> task list \<Rightarrow> string \<Rightarrow> task list" where
  "filterTasksByDate e s ts dateFilter' =
     (let today = startOfDay e (now e);
          yesterday = addDays e today (- 1);
          tomorrow = addDays e today 1
      in if dateFilter' = ''today'' then
           filter (\<lambda>t. geD (timestamp t) (Some today) \<and> ltD (timestamp t) (Some tomorrow)) ts
         else if dateFilter' = ''yesterday'' then
           filter (\<lambda>t. geD (timestamp t) (Some yesterday) \<and> ltD (timestamp t) (Some today)) ts
         else if dateFilter' = ''tomorrow'' then
           filter (\<lambda>t. geD (timestamp t) (Some tomorrow)
                      \<and> ltD (timestamp t) (Some (tomorrow + 24 * 60 * 60 * 1000))) ts
         else if dateFilter' = ''custom'' then
           (case customDate s of
              None \<Rightarrow> ts
            | Some custom \<Rightarrow>
                (let nextDay = map_option (\<lambda>c. addDays e c 1) custom
                 in filter (\<lambda>t. geD (timestamp t) custom \<and> ltD (timestamp t) nextDay) ts))
         else ts)"

text \<open>The comparator of the sort: \<open>new Date(b.timestamp) - new Date(a.timestamp)\<close>.\<close>

definition compareNewestFirst :: "task \<Rightarrow> task \<Rightarrow> int" where
  "compareNewestFirst a b =
     (case (timestamp b, timestamp a) of (Some tb, Some ta) \<Rightarrow> tb - ta | _ \<Rightarrow> 0)"

text \<open>
  \<open>(now - taskTime) / (1000 * 60 * 60)\<close>. The difference is an integer number of
  milliseconds, and the quotient of the doubles is above 24 exactly when the exact
  quotient is, so the model divides exactly.
\<close>

definition hoursDiff :: "int \<Rightarrow> int \<Rightarrow> rat" where
  "hoursDiff nw ts = of_int (nw - ts) / (1000 * 60 * 60)"

definition isOverdue :: "int \<Rightarrow> task \<Rightarrow> bool" where
  "isOverdue nw t =
     (case timestamp t of
        None \<Rightarrow> False
      | Some ts \<Rightarrow>
          (status t = ''Pending'' \<or> status t = ''In Progress'' \<or> status t = ''Hold'')
          \<and> hoursDiff nw ts > 24)"

definition overdueRowOf :: "int \<Rightarrow> task \<Rightarrow> overdueRow" where
  "overdueRowOf nw t =
     ClientOverdue t (case timestamp t of None \<Rightarrow> 0 | Some ts \<Rightarrow> \<lfloor>hoursDiff nw ts\<rfloor>)"

text \<open>
  \<open>renderTasks\<close>. Its local variables \<open>filteredTasks\<close> (after the five filters),
  \<open>sortedTasks\<close> and \<open>overdueTasks\<close> are functions of the state here.
\<close>

definition filteredTasks :: "env \<Rightarrow> app \<Rightarrow> task list" where
  "filteredTasks e s =
     (let f = currentFilters s;
          filtered0 = tasks s;
          filtered1 = (if dateFilter f \<noteq> ''all''
                       then filterTasksByDate e s filtered0 (dateFilter f) else filtered0);
          filtered2 = (if branchFilter f \<noteq> ''all''
                       then filter (\<lambda>t. branch t = branchFilter f) filtered1 else filtered1);
          filtered3 = (if staffFilter f \<noteq> ''all''
                       then filter (\<lambda>t. assignedTo t = staffFilter f) filtered2 else filtered2);
          filtered4 = (if statusFilter f \<noteq> ''all''
                       then filter (\<lambda>t. status t = statusFilter f) filtered3 else filtered3);
          filtered5 = (if serviceFilter f \<noteq> ''all''
                       then filter (\<lambda>t. serviceType t = serviceFilter f) filtered4 else filtered4)
      in filtered5)"

definition sortedTasks :: "env \<Rightarrow> app \<Rightarrow> task list" where
  "sortedTasks e s = sortBy compareNewestFirst (filteredTasks e s)"

definition overdueTasks :: "env \<Rightarrow> app \<Rightarrow> task list" where
  "overdueTasks e s = filter (isOverdue (now e)) (sortedTasks e s)"

definition renderOverdue :: "env \<Rightarrow> app \<Rightarrow> app \<Rightarrow> app" where
  \<comment> \<open>the overdue table, written into \<open>s1\<close> from the tasks of \<open>s\<close>\<close>
  "renderOverdue e s s1 =
     (if length (overdueTasks e s) > 0
      then (unhide OverdueTasksContainer s1)
             \<lparr>overdueTasksTable := map (overdueRowOf (now e)) (overdueTasks e s)\<rparr>
      else hide OverdueTasksContainer s1)"

definition renderTasks :: "env \<Rightarrow> app \<Rightarrow> app completion" where
  "renderTasks e s =
     (let s0 = s\<lparr>taskTableBody := [], recentTasksTable := [], overdueTasksTable := []\<rparr>;
          recentTasks = take 10 (sortedTasks e s)
      in case forEachAppend (\<lambda>t. createTaskRow s t False) recentTasks [] of
           (Some err, rows) \<Rightarrow> Throw err (s0\<lparr>recentTasksTable := rows\<rparr>)
         | (None, rows) \<Rightarrow>
             (let s2 = renderOverdue e s (s0\<lparr>recentTasksTable := rows\<rparr>)
              in case forEachAppend (\<lambda>t. createTaskRow s t True) (sortedTasks e s) [] of
                   (Some err, rows') \<Rightarrow> Throw err (s2\<lparr>taskTableBody := rows'\<rparr>)
                 | (None, rows') \<Rightarrow> Normal (s2\<lparr>taskTableBody := rows'\<rparr>)))"

text \<open>
  \<open>applyTaskFilters\<close> and \<open>resetTaskFilters\<close>: the filter controls are read (or reset) and
  the table rendered again; an exception of the render leaves the handler before its toast.
\<close>

definition allFilters :: filters where
  "allFilters = \<lparr>dateFilter = ''all'', branchFilter = ''all'', staffFilter = ''all'',
                 statusFilter = ''all'', serviceFilter = ''all''\<rparr>"

definition applyTaskFilters :: "env \<Rightarrow> app \<Rightarrow> app completion" where
  "applyTaskFilters e s =
     (case renderTasks e (s\<lparr>currentFilters := filterControls s\<rparr>) of
        Throw err s' \<Rightarrow> Throw err s'
      | Normal s' \<Rightarrow> Normal (showToast ''Filters applied successfully!'' ''success'' s'))"

definition resetTaskFilters :: "env \<Rightarrow> app \<Rightarrow> app completion" where
  "resetTaskFilters e s =
     (case renderTasks e (s\<lparr>filterControls := allFilters, currentFilters := allFilters\<rparr>) of
        Throw err s' \<Rightarrow> Throw err s'
      | Normal s' \<Rightarrow> Normal (showToast ''Filters reset successfully!'' ''success'' s'))"

subsection \<open>The staff panel\<close>

definition createTaskCard :: "user \<Rightarrow> task \<Rightarrow> string \<Rightarrow> card" where
  "createTaskCard u t type =
     (let isMyTask = (assignedTo t = username u \<or> takenOverBy t = Some (username u));
          isTakenOver = (takenOverBy t = Some (username u));
          canTakeOver = (\<not> isMyTask \<and> takenOverBy t = None)
      in \<lparr>card_task = t, card_type = type, takenOverBadge = isTakenOver,
          card_controls = (if canTakeOver then [TakeoverBtn] else [])
                          @ (if isMyTask then [EditBtn, statusSelect (status t)] else [])\<rparr>)"

text \<open>
  The three \<open>populate\<close> functions read \<open>currentUser\<close>; they are called by
  \<open>updateStaffPanel\<close> only, after its test that a staff user is logged in, so the model
  hands them that user.
\<close>

definition populateAllTasks :: "user \<Rightarrow> app \<Rightarrow> app" where
  "populateAllTasks u s =
     s\<lparr>allTasksContainer := map (\<lambda>t. createTaskCard u t ''all'') (tasks s)\<rparr>"

definition populateMyTasks :: "user \<Rightarrow> app \<Rightarrow> app" where
  "populateMyTasks u s =
     (let myTasks = filter (\<lambda>t. assignedTo t = username u \<or> takenOverBy t = Some (username u))
                      (tasks s)
      in s\<lparr>myTasksContainer := map (\<lambda>t. createTaskCard u t ''my'') myTasks\<rparr>)"

definition populateExtraTasks :: "user \<Rightarrow> app \<Rightarrow> app" where
  "populateExtraTasks u s =
     (let extraTasks = filter (\<lambda>t. takenOverBy t = Some (username u)) (tasks s)
      in s\<lparr>extraTasksContainer := map (\<lambda>t. createTaskCard u t ''extra'') extraTasks\<rparr>)"

definition updateStaffPanel :: "app \<Rightarrow> app" where
  "updateStaffPanel s =
     (case currentUser s of
        None \<Rightarrow> s
      | Some u \<Rightarrow>
          if role u \<noteq> ''staff'' then s
          else
            (let totalTasks = length (tasks s);
                 pendingTasks = length (filter (\<lambda>t. status t = ''Pending'') (tasks s));
                 myTasks = length (filter (\<lambda>t. assignedTo t = username u
                                              \<or> takenOverBy t = Some (username u)) (tasks s));
                 extraTasks = length (filter (\<lambda>t. takenOverBy t = Some (username u)) (tasks s));
                 s1 = s\<lparr>staffPanelCounters :=
                          Some (username u, totalTasks, pendingTasks, myTasks, extraTasks)\<rparr>
             in populateExtraTasks u (populateMyTasks u (populateAllTasks u s1))))"

definition takeOverTask :: "int \<Rightarrow> app \<Rightarrow> app completion" where
  "takeOverTask taskId s =
     (case findIndex (\<lambda>t. task_id t = taskId) (tasks s) of
        None \<Rightarrow> Normal s
      | Some taskIndex \<Rightarrow>
          (case currentUser s of
             None \<Rightarrow> Throw TypeError s
           | Some u \<Rightarrow>
               (let t' = (tasks s ! taskIndex)
                           \<lparr>takenOverBy := Some (username u),
                            edited := True,
                            editReason := Some (''Task taken over by '' @ username u)\<rparr>;
                    s1 = s\<lparr>tasks := (tasks s)[taskIndex := t']\<rparr>
                in Normal (showToast ''Task taken over successfully!'' ''success''
                             (updateStaffPanel s1)))))"

text \<open>
  \<open>updateTaskStatus\<close> up to its request. The continuation keeps the index found now and
  the status read now.
\<close>

definition updateTaskStatus :: "int \<Rightarrow> string \<Rightarrow> app \<Rightarrow> app" where
  "updateTaskStatus i newStatus s =
     (case findIndex (\<lambda>t. task_id t = i) (tasks s) of
        None \<Rightarrow> showToast ''Task not found'' ''error'' s
      | Some taskIndex \<Rightarrow>
          apiFetch PUT (ApiTask i) (StatusBody newStatus)
            (K_status i taskIndex (status (tasks s ! taskIndex)) newStatus) s)"

subsection \<open>Status selects in the document\<close>

text \<open>
  Setting \<open>select.value\<close>: the option of that value becomes the selected one, and no
  option is when there is none of that value (the select then reads the empty string).
\<close>

definition selectValue :: "string \<Rightarrow> string" where
  "selectValue v = (if v \<in> set statusOptions then v else [])"

fun hasSelect :: "control list \<Rightarrow> bool" where
  "hasSelect [] = False"
| "hasSelect (StatusSelect v # cs) = True"
| "hasSelect (c # cs) = hasSelect cs"

fun setSelect :: "string \<Rightarrow> control list \<Rightarrow> control list" where
  "setSelect v [] = []"
| "setSelect v (StatusSelect x # cs) = StatusSelect v # cs"
| "setSelect v (c # cs) = c # setSelect v cs"

fun getSelect :: "control list \<Rightarrow> string option" where
  "getSelect [] = None"
| "getSelect (StatusSelect x # cs) = Some x"
| "getSelect (c # cs) = getSelect cs"

text \<open>
  \<open>document.querySelector('.status-select[data-task-id="id"], .status-select[data-id="id"]')\<close>
  followed by the assignment to its value: the first status select of the task in document
  order, over the table rows (\<open>data-id\<close>) and the cards of the staff panel
  (\<open>data-task-id\<close>). \<open>None\<close> when the container has no such select.
\<close>

fun revertRows :: "int \<Rightarrow> string \<Rightarrow> row list \<Rightarrow> row list option" where
  "revertRows i v [] = None"
| "revertRows i v (r # rs) =
     (if task_id (row_task r) = i \<and> hasSelect (controls r)
      then Some (r\<lparr>controls := setSelect (selectValue v) (controls r)\<rparr> # rs)
      else map_option ((#) r) (revertRows i v rs))"

fun revertCards :: "int \<Rightarrow> string \<Rightarrow> card list \<Rightarrow> card list option" where
  "revertCards i v [] = None"
| "revertCards i v (c # cs) =
     (if task_id (card_task c) = i \<and> hasSelect (card_controls c)
      then Some (c\<lparr>card_controls := setSelect (selectValue v) (card_controls c)\<rparr> # cs)
      else map_option ((#) c) (revertCards i v cs))"

fun revertIn :: "container \<Rightarrow> int \<Rightarrow> string \<Rightarrow> app \<Rightarrow> app option" where
  "revertIn TaskTableBody i v s =
     map_option (\<lambda>rs. s\<lparr>taskTableBody := rs\<rparr>) (revertRows i v (taskTableBody s))"
| "revertIn AllTasksContainer i v s =
     map_option (\<lambda>cs. s\<lparr>allTasksContainer := cs\<rparr>) (revertCards i v (allTasksContainer s))"
| "revertIn MyTasksContainer i v s =
     map_option (\<lambda>cs. s\<lparr>myTasksContainer := cs\<rparr>) (revertCards i v (myTasksContainer s))"
| "revertIn ExtraTasksContainer i v s =
     map_option (\<lambda>cs. s\<lparr>extraTasksContainer := cs\<rparr>) (revertCards i v (extraTasksContainer s))"

fun revertSelect :: "container list \<Rightarrow> int \<Rightarrow> string \<Rightarrow> app \<Rightarrow> app" where
  "revertSelect [] i v s = s"
| "revertSelect (c # cs) i v s =
     (case revertIn c i v s of Some s' \<Rightarrow> s' | None \<Rightarrow> revertSelect cs i v s)"

text \<open>
  The user picks \<open>newStatus\<close> in the status select of the \<open>n\<close>-th row or card of a
  container: the select shows the new value and its \<open>change\<close> listener calls
  \<open>updateTaskStatus(task.id, e.target.value)\<close>, \<open>task\<close> being the one the row or card was
  created for. Nothing happens when there is no such select.
\<close>

definition selectAt :: "container \<Rightarrow> nat \<Rightarrow> app \<Rightarrow> (int \<times> string) option" where
  "selectAt c n s =
     (case c of
        TaskTableBody \<Rightarrow>
          (if n < length (taskTableBody s)
           then map_option (Pair (task_id (row_task (taskTableBody s ! n))))
                  (getSelect (controls (taskTableBody s ! n)))
           else None)
      | AllTasksContainer \<Rightarrow>
          (if n < length (allTasksContainer s)
           then map_option (Pair (task_id (card_task (allTasksContainer s ! n))))
                  (getSelect (card_controls (allTasksContainer s ! n)))
           else None)
      | MyTasksContainer \<Rightarrow>
          (if n < length (myTasksContainer s)
           then map_option (Pair (task_id (card_task (myTasksContainer s ! n))))
                  (getSelect (card_controls (myTasksContainer s ! n)))
           else None)
      | ExtraTasksContainer \<Rightarrow>
          (if n < length (extraTasksContainer s)
           then map_option (Pair (task_id (card_task (extraTasksContainer s ! n))))
                  (getSelect (card_controls (extraTasksContainer s ! n)))
           else None))"

definition writeSelectAt :: "container \<Rightarrow> nat \<Rightarrow> string \<Rightarrow> app \<Rightarrow> app" where
  "writeSelectAt c n v s =
     (case c of
        TaskTableBody \<Rightarrow>
          s\<lparr>taskTableBody := (taskTableBody s)
              [n := (taskTableBody s ! n)\<lparr>controls := setSelect v (controls (taskTableBody s ! n))\<rparr>]\<rparr>
      | AllTasksContainer \<Rightarrow>
          s\<lparr>allTasksContainer := (allTasksContainer s)
              [n := (allTasksContainer s ! n)
                 \<lparr>card_controls := setSelect v (card_controls (allTasksContainer s ! n))\<rparr>]\<rparr>
      | MyTasksContainer \<Rightarrow>
          s\<lparr>myTasksContainer := (myTasksContainer s)
              [n := (myTasksContainer s ! n)
                 \<lparr>card_controls := setSelect v (card_controls (myTasksContainer s ! n))\<rparr>]\<rparr>
      | ExtraTasksContainer \<Rightarrow>
          s\<lparr>extraTasksContainer := (extraTasksContainer s)
              [n := (extraTasksContainer s ! n)
                 \<lparr>card_controls := setSelect v (card_controls (extraTasksContainer s ! n))\<rparr>]\<rparr>)"

definition changeStatusSelect :: "container \<Rightarrow> nat \<Rightarrow> string \<Rightarrow> app \<Rightarrow> app" where
  "changeStatusSelect c n newStatus s =
     (case selectAt c n s of
        None \<Rightarrow> s
      | Some (i, shown) \<Rightarrow> updateTaskStatus i newStatus (writeSelectAt c n newStatus s))"

subsection \<open>The service catalogue\<close>

definition createServiceItem :: "app \<Rightarrow> service \<Rightarrow> error + serviceItem" where
  "createServiceItem s sv =
     (case currentUser s of
        None \<Rightarrow> Inl TypeError
      | Some u \<Rightarrow>
          (let duplicates = filter (\<lambda>x. toLowerCase (name x) = toLowerCase (name sv)
                                       \<and> service_id x \<noteq> service_id sv) (serviceDatabase s)
           in Inr \<lparr>item_service = sv,
                   item_controls = (if role u \<noteq> ''staff'' then [EditBtn, DeleteBtn] else []),
                   duplicate = (length duplicates > 0)\<rparr>))"

definition populateServiceDatabase :: "app \<Rightarrow> app completion" where
  "populateServiceDatabase s =
     (case forEachAppend (createServiceItem s) (serviceDatabase s) [] of
        (Some err, items) \<Rightarrow> Throw err (s\<lparr>serviceListContainer := items\<rparr>)
      | (None, items) \<Rightarrow> Normal (s\<lparr>serviceListContainer := items\<rparr>))"

definition loadServicesFromBackend :: "app \<Rightarrow> app" where
  "loadServicesFromBackend s = apiFetch GET ApiServices NoBody K_services s"

subsection \<open>The task form\<close>

definition emptyForm :: taskForm where
  "emptyForm = \<lparr>branchCode_f = [], customerName_f = [], contactNumber_f = [],
                serviceType_f = [], assignedTo_f = [], paymode_f = [], servicePrice_f = None,
                paidAmount_f = None, serviceCharge_f = None, description_f = []\<rparr>"

definition showTaskForm :: "app \<Rightarrow> app" where
  "showTaskForm s =
     (unhide TaskFormContainer s)
       \<lparr>formTitle := ''Create New Task'', taskFormValues := emptyForm, editingTaskId := None\<rparr>"

definition hideTaskForm :: "app \<Rightarrow> app" where
  "hideTaskForm s = hide TaskFormContainer s"

definition editTask :: "int \<Rightarrow> app \<Rightarrow> app completion" where
  "editTask i s =
     (case find_js (\<lambda>t. task_id t = i) (tasks s) of
        None \<Rightarrow> Normal s
      | Some t \<Rightarrow>
          (case currentUser s of
             None \<Rightarrow> Throw TypeError s
           | Some u \<Rightarrow>
               if role u = ''staff'' \<and> assignedTo t \<noteq> username u
                  \<and> username u \<notin> set (sharedWith t)
               then Normal (showToast
                      ''You can only edit tasks assigned to you or shared with you'' ''error'' s)
               else Normal ((unhide TaskFormContainer s)
                      \<lparr>taskFormValues :=
                         \<lparr>branchCode_f = branch t, customerName_f = customerName t,
                          contactNumber_f = contactNumber t, serviceType_f = serviceType t,
                          assignedTo_f = assignedTo t, paymode_f = paymode t,
                          servicePrice_f = Some (servicePrice t),
                          paidAmount_f = Some (paidAmount t),
                          serviceCharge_f = Some (serviceCharge t),
                          description_f = description t\<rparr>,
                       formTitle := ''Edit Task'',
                       editingTaskId := Some i\<rparr>)))"

definition fetchTasksAndRender :: "bool \<Rightarrow> app \<Rightarrow> app" where
  "fetchTasksAndRender thenPanel s = apiFetch GET ApiTasks NoBody (K_fetchTasks thenPanel) s"

definition saveTask :: "app \<Rightarrow> app" where
  "saveTask s =
     (let payload = mapUIToBackendTask (taskFormValues s)
      in case editingTaskId s of
           None \<Rightarrow> apiFetch POST ApiTasks (TaskBody payload) K_saveTask s
         | Some i \<Rightarrow>
             apiFetch PUT (ApiTask i) (TaskEditBody payload (currentEditReason s)) K_saveTask s)"

definition handleTaskSubmit :: "app \<Rightarrow> app completion" where
  "handleTaskSubmit s =
     (case editingTaskId s of
        None \<Rightarrow> Normal (saveTask s)
      | Some i \<Rightarrow>
          (case currentUser s of
             None \<Rightarrow> Throw TypeError s
           | Some u \<Rightarrow>
               if role u = ''staff'' then Normal (openModal EditReasonModal s)
               else Normal (saveTask s)))"

definition saveTaskWithReason :: "app \<Rightarrow> app" where
  "saveTaskWithReason s =
     (let s1 = s\<lparr>currentEditReason := trim (editReason_input s)\<rparr>
      in if currentEditReason s1 = []
         then showToast ''Please provide a reason for the change.'' ''error'' s1
         else saveTask (closeModal EditReasonModal s1))"


subsection \<open>Sharing\<close>

definition showShareModal :: "int \<Rightarrow> app \<Rightarrow> app completion" where
  "showShareModal i s =
     (let s0 = s\<lparr>sharingTaskId := Some i, staffListModal := []\<rparr>
      in case find_js (\<lambda>t. task_id t = i) (tasks s) of
           None \<Rightarrow>
             (if STAFF_LIST s = [] then Normal (openModal ShareTaskModal s0)
              else Throw TypeError s0)
         | Some t \<Rightarrow>
             Normal (openModal ShareTaskModal
               (s0\<lparr>staffListModal :=
                     map (\<lambda>st. \<lparr>item_staff = staff_name st, selected = False\<rparr>)
                       (filter (\<lambda>st. staff_name st \<noteq> assignedTo t \<and> staff_role st = ''staff'')
                          (STAFF_LIST s))\<rparr>)))"

text \<open>A click on the \<open>n\<close>-th item of the share modal: it alone is selected.\<close>

definition clickStaffItem :: "nat \<Rightarrow> app \<Rightarrow> app" where
  "clickStaffItem n s =
     (if n < length (staffListModal s)
      then s\<lparr>staffListModal :=
               (map (\<lambda>it. it\<lparr>selected := False\<rparr>) (staffListModal s))
                 [n := (staffListModal s ! n)\<lparr>selected := True\<rparr>]\<rparr>
      else s)"

definition shareTask :: "app \<Rightarrow> app" where
  "shareTask s =
     (case find_js selected (staffListModal s) of
        None \<Rightarrow> showToast ''Please select a staff member to share with.'' ''error'' s
      | Some it \<Rightarrow>
          apiFetch POST (ApiTaskShare (sharingTaskId s)) (ShareBody (item_staff it))
            (K_share (item_staff it)) s)"

subsection \<open>Dashboard, alerts and reports\<close>

definition updateDashboard :: "app \<Rightarrow> app" where
  "updateDashboard s = apiFetch GET ApiStats NoBody K_stats s"

definition updateWinners :: "app \<Rightarrow> app" where
  "updateWinners s = apiFetch GET ApiTopPerformers NoBody K_top (s\<lparr>winnersCards := []\<rparr>)"

definition updateOverdueTasks :: "app \<Rightarrow> app" where
  "updateOverdueTasks s =
     apiFetch GET ApiOverdueTasks NoBody K_overdue (s\<lparr>overdueTasksTable := []\<rparr>)"

text \<open>\<open>Array.from(new Set(names))\<close>: each name once, in the order of first occurrence.\<close>

definition uniq :: "'a list \<Rightarrow> 'a list" where
  "uniq xs = rev (remdups (rev xs))"

definition staffUsernames :: "app \<Rightarrow> string list" where
  "staffUsernames s = uniq (filter (\<lambda>n. n \<noteq> []) (map assignedTo (tasks s)))"

definition updateStaffAlerts :: "env \<Rightarrow> app \<Rightarrow> app" where
  "updateStaffAlerts e s =
     s\<lparr>staffAlertsContainer :=
         filter (\<lambda>(n, overdueTasks). length overdueTasks > 0)
           (map (\<lambda>n. (n, filter (isOverdue (now e)) (filter (\<lambda>t. assignedTo t = n) (tasks s))))
              (staffUsernames s))\<rparr>"

definition createReportCard :: "app \<Rightarrow> string \<Rightarrow> error + reportCard" where
  "createReportCard s n =
     (let staffTasks = filter (\<lambda>t. assignedTo t = n) (tasks s);
          completedTasks = length (filter (\<lambda>t. status t = ''Completed'') staffTasks);
          totalRevenue' = foldl (\<lambda>sum t. sum + paidAmount t) 0 staffTasks
      in case currentUser s of
           None \<Rightarrow> Inl TypeError
         | Some u \<Rightarrow>
             Inr \<lparr>report_name = n, report_total = length staffTasks,
                  report_completed = completedTasks,
                  report_revenue = (if role u = ''admin'' then Some totalRevenue' else None)\<rparr>)"

definition updateReports :: "app \<Rightarrow> app completion" where
  "updateReports s =
     (case forEachAppend (createReportCard s) (staffUsernames s) [] of
        (Some err, cards) \<Rightarrow> Throw err (s\<lparr>staffPerformanceCards := cards\<rparr>)
      | (None, cards) \<Rightarrow> Normal (s\<lparr>staffPerformanceCards := cards\<rparr>))"

subsection \<open>Session and navigation\<close>

definition showLogin :: "app \<Rightarrow> app" where
  "showLogin s =
     s\<lparr>hiddenEls := (hiddenEls s - {LoginPage})
          \<union> {Navigation, DashboardPage, TasksPage, StaffPage, ReportsPage, DatabasePage,
             StaffPanelPage}\<rparr>"

definition hidePages :: "app \<Rightarrow> app" where
  "hidePages s =
     s\<lparr>hiddenEls := hiddenEls s
          \<union> {DashboardPage, TasksPage, StaffPage, ReportsPage, DatabasePage, StaffPanelPage}\<rparr>"

definition navigateToPage :: "env \<Rightarrow> string \<Rightarrow> app \<Rightarrow> app completion" where
  "navigateToPage e page s =
     (let s0 = hidePages s
      in if page = ''dashboard'' then
           Normal ((updateDashboard (unhide DashboardPage s0))\<lparr>currentPage := page\<rparr>)
         else if page = ''tasks'' then
           Normal ((unhide TasksPage s0)\<lparr>currentPage := page\<rparr>)
         else if page = ''staff'' then
           Normal ((updateStaffAlerts e (unhide StaffPage s0))\<lparr>currentPage := page\<rparr>)
         else if page = ''reports'' then
           (case updateReports (unhide ReportsPage s0) of
              Throw err s' \<Rightarrow> Throw err s'
            | Normal s' \<Rightarrow> Normal (s'\<lparr>currentPage := page\<rparr>))
         else if page = ''database'' then
           Normal ((unhide DatabasePage s0)\<lparr>currentPage := page\<rparr>)
         else if page = ''staff-panel'' then
           Normal ((updateStaffPanel (unhide StaffPanelPage s0))\<lparr>currentPage := page\<rparr>)
         else Normal (s0\<lparr>currentPage := page\<rparr>))"

text \<open>The role-dependent part of \<open>showApp\<close>: which elements are shown to which role.\<close>

definition showRoleElements :: "user \<Rightarrow> app \<Rightarrow> app" where
  "showRoleElements u s =
     (if role u = ''admin'' then
        s\<lparr>hiddenEls := hiddenEls s
             - {StaffNav, ReportsNav, DatabaseNav, RevenueCard, ActionsHeader, AddStaffBtn,
                AddServiceBtn}\<rparr>
      else if role u = ''manager'' then
        s\<lparr>hiddenEls := (hiddenEls s - {StaffNav, ReportsNav, DatabaseNav, ActionsHeader,
                                       AddServiceBtn})
             \<union> {RevenueCard, AddStaffBtn}\<rparr>
      else
        s\<lparr>hiddenEls := hiddenEls s
             \<union> {StaffNav, ReportsNav, DatabaseNav, RevenueCard, ActionsHeader, AddStaffBtn,
                AddServiceBtn}\<rparr>)"

definition populateStaffDropdown :: "app \<Rightarrow> app" where
  "populateStaffDropdown s = apiFetch GET ApiUsers NoBody K_usersDropdown s"

definition populateStaffList :: "app \<Rightarrow> app" where
  "populateStaffList s = apiFetch GET ApiUsers NoBody K_usersList s"

definition showApp :: "env \<Rightarrow> app \<Rightarrow> app completion" where
  "showApp e s =
     (let s0 = unhide Navigation (hide LoginPage s)
      in case currentUser s of
           None \<Rightarrow> Throw TypeError s0
         | Some u \<Rightarrow>
             (let s1 = populateStaffList (populateStaffDropdown (showRoleElements u s0))
              in case populateServiceDatabase s1 of
                   Throw err s' \<Rightarrow> Throw err s'
                 | Normal s2 \<Rightarrow>
                     (case navigateToPage e (currentPage s2) s2 of
                        Throw err s' \<Rightarrow> Throw err s'
                      | Normal s3 \<Rightarrow>
                          Normal (updateDashboard (loadServicesFromBackend
                                    (fetchTasksAndRender False s3))))))"

definition handleLogin :: "string \<Rightarrow> string \<Rightarrow> app \<Rightarrow> app" where
  "handleLogin uname password s = apiFetch POST ApiLogin (LoginBody uname password) K_login s"

definition handleLogout :: "app \<Rightarrow> app" where
  "handleLogout s =
     showToast ''You have been logged out.'' ''warning''
       (showLogin ((apiFetch POST ApiLogout NoBody K_logout s)\<lparr>currentUser := None\<rparr>))"

definition initApp :: "env \<Rightarrow> user option \<Rightarrow> app \<Rightarrow> app completion" where
  \<comment> \<open>the second argument is the user saved in the session storage, if any\<close>
  "initApp e savedUser s =
     (case savedUser of
        Some u \<Rightarrow> showApp e (s\<lparr>currentUser := Some u\<rparr>)
      | None \<Rightarrow> Normal (showLogin s))"

subsection \<open>The arrival of an answer\<close>

text \<open>
  \<open>rejected\<close> is the \<open>.catch\<close> handler (or \<open>catch\<close> block) of a continuation, \<open>fulfilled\<close>
  its \<open>.then\<close> handler (or the rest of the \<open>try\<close> block); an exception inside a
  \<open>.then\<close> handler goes to the \<open>.catch\<close> behind it. An answer whose JSON has not the
  shape the handler reads raises the TypeError of the first read. The handlers of
  \<open>/api/users\<close> fill the staff pickers and the staff cards, which the model leaves out;
  only the assignment to \<open>STAFF_LIST\<close> is kept.
\<close>

definition afterFetchTasks :: "bool \<Rightarrow> app \<Rightarrow> app" where
  "afterFetchTasks thenPanel s =
     (if thenPanel \<and> currentPage s = ''staff-panel'' then updateStaffPanel s else s)"

definition rejected :: "env \<Rightarrow> cont \<Rightarrow> error \<Rightarrow> app \<Rightarrow> app" where
  "rejected e k err s =
     (case k of
        K_login \<Rightarrow>
          showToast (if message err = [] then ''Invalid credentials. Please try again.''
                     else message err) ''error'' s
      | K_logout \<Rightarrow> s
      | K_usersDropdown \<Rightarrow> s
      | K_usersList \<Rightarrow> s
      | K_fetchTasks thenPanel \<Rightarrow>
          afterFetchTasks thenPanel
            (showToast (''Failed to load tasks: '' @ message err) ''error'' s)
      | K_services \<Rightarrow> s
      | K_saveTask \<Rightarrow> showToast (''Failed to save task: '' @ message err) ''error'' s
      | K_deleteTask i \<Rightarrow> showToast (''Failed to delete task: '' @ message err) ''error'' s
      | K_share staffName \<Rightarrow> showToast (''Failed to share task: '' @ message err) ''error'' s
      | K_status i taskIndex oldStatus newStatus \<Rightarrow>
          revertSelect (docOrder e) i oldStatus
            (showToast (''Failed to update task status: '' @ message err) ''error'' s)
      | K_stats \<Rightarrow> s
      | K_top \<Rightarrow> updateOverdueTasks (hide WinnersContainer s)
      | K_overdue \<Rightarrow> hide OverdueTasksContainer s)"

definition createWinnerCard :: "app \<Rightarrow> nat \<times> winner \<Rightarrow> error + winnerCard" where
  "createWinnerCard s iw =
     (case currentUser s of
        None \<Rightarrow> Inl TypeError
      | Some u \<Rightarrow>
          Inr \<lparr>place = fst iw, card_winner = snd iw,
               card_revenue = (if role u = ''admin''
                               then Some (orZero (winner_revenue (snd iw))) else None)\<rparr>)"

definition fulfilled :: "env \<Rightarrow> cont \<Rightarrow> payload \<Rightarrow> app \<Rightarrow> app" where
  "fulfilled e k data s =
     (case k of
        K_login \<Rightarrow>
          (case data of
             LoginData (Some u) \<Rightarrow>
               (case showApp e (s\<lparr>currentUser := Some u\<rparr>) of
                  Throw err s' \<Rightarrow> rejected e k err s'
                | Normal s' \<Rightarrow> showToast ''Login successful!'' ''success'' s')
           | _ \<Rightarrow> rejected e k (ApiError ''Invalid server response'') s)
      | K_logout \<Rightarrow> s
      | K_usersDropdown \<Rightarrow>
          (case data of
             UsersData users \<Rightarrow>
               s\<lparr>STAFF_LIST := map (\<lambda>u. \<lparr>staff_name = username u, staff_role = role u,
                                         staff_email = email u\<rparr>) users\<rparr>
           | _ \<Rightarrow> rejected e k TypeError s)
      | K_usersList \<Rightarrow> s
      | K_fetchTasks thenPanel \<Rightarrow>
          (case data of
             TasksData ts \<Rightarrow>
               (case renderTasks e (s\<lparr>tasks := map mapBackendTaskToUI ts\<rparr>) of
                  Throw err s' \<Rightarrow> rejected e k err s'
                | Normal s' \<Rightarrow> afterFetchTasks thenPanel (updateDashboard s'))
           | _ \<Rightarrow> rejected e k TypeError s)
      | K_services \<Rightarrow>
          (case data of
             ServicesData svs \<Rightarrow> stateOf (populateServiceDatabase (s\<lparr>serviceDatabase := svs\<rparr>))
           | _ \<Rightarrow> rejected e k TypeError s)
      | K_saveTask \<Rightarrow>
          fetchTasksAndRender False
            ((hideTaskForm
                (showToast (if editingTaskId s = None then ''Task created successfully!''
                            else ''Task updated successfully!'') ''success'' s))
               \<lparr>editReason_input := [], currentEditReason := [], editingTaskId := None\<rparr>)
      | K_deleteTask i \<Rightarrow>
          (case renderTasks e (s\<lparr>tasks := filter (\<lambda>t. task_id t \<noteq> i) (tasks s)\<rparr>) of
             Throw err s' \<Rightarrow> rejected e k err s'
           | Normal s' \<Rightarrow>
               showToast ''Task deleted successfully!'' ''success'' (updateDashboard s'))
      | K_share staffName \<Rightarrow>
          fetchTasksAndRender True
            (showToast (''Task shared with '' @ staffName @ '' successfully!'') ''success''
               (closeModal ShareTaskModal s))
      | K_status i taskIndex oldStatus newStatus \<Rightarrow>
          (if taskIndex < length (tasks s) then
             (let t' = (tasks s ! taskIndex)
                         \<lparr>status := newStatus,
                          edited := True,
                          editReason := Some (''Status changed from '' @ oldStatus @ '' to ''
                                              @ newStatus)\<rparr>;
                  s1 = openModal StatusUpdateModal
                         (s\<lparr>tasks := (tasks s)[taskIndex := t'],
                            statusUpdateText := Some (orderNo t', newStatus)\<rparr>)
              in case renderTasks e s1 of
                   Throw err s' \<Rightarrow> rejected e k err s'
                 | Normal s' \<Rightarrow>
                     showToast ''Task status updated successfully!'' ''success''
                       (updateStaffPanel (updateDashboard s')))
           else rejected e k TypeError s)
      | K_stats \<Rightarrow>
          (case data of
             StatsData st \<Rightarrow>
               (let s1 = s\<lparr>dashboardCounters :=
                             Some (total_tasks st, tasks_today st, completed_tasks st)\<rparr>
                in case currentUser s of
                     None \<Rightarrow> rejected e k TypeError s1
                   | Some u \<Rightarrow>
                       updateWinners
                         (if role u = ''admin''
                          then s1\<lparr>totalRevenue := Some (orZero (total_revenue st))\<rparr>
                          else s1))
           | _ \<Rightarrow> rejected e k TypeError s)
      | K_top \<Rightarrow>
          (case data of
             TopData top' \<Rightarrow>
               (if length top' > 0 then
                  (case forEachAppend (createWinnerCard s) (enumerate 0 top') (winnersCards s) of
                     (Some err, cards) \<Rightarrow>
                       rejected e k err ((unhide WinnersContainer s)\<lparr>winnersCards := cards\<rparr>)
                   | (None, cards) \<Rightarrow>
                       updateOverdueTasks ((unhide WinnersContainer s)\<lparr>winnersCards := cards\<rparr>))
                else updateOverdueTasks (hide WinnersContainer s))
           | _ \<Rightarrow> updateOverdueTasks (hide WinnersContainer s))
      | K_overdue \<Rightarrow>
          (case data of
             OverdueData l \<Rightarrow>
               (if length l > 0 then
                  (unhide OverdueTasksContainer s)
                    \<lparr>overdueTasksTable :=
                       overdueTasksTable s @ map (\<lambda>(t, h). BackendOverdue t h) l\<rparr>
                else hide OverdueTasksContainer s)
           | _ \<Rightarrow> hide OverdueTasksContainer s))"

text \<open>
  The answer to the \<open>n\<close>-th waiting request arrives. \<open>apiFetch\<close> resumes: on a 401 it
  shows a toast, logs out and throws; on another failure it throws the message; else it
  returns the JSON.
\<close>

definition settle :: "env \<Rightarrow> cont \<Rightarrow> response \<Rightarrow> app \<Rightarrow> app" where
  "settle e k resp s =
     (case resp of
        Ok data \<Rightarrow> fulfilled e k data s
      | Unauthorized \<Rightarrow>
          rejected e k (ApiError ''Unauthorized'')
            (handleLogout (showToast ''Session expired. Please log in again.'' ''warning'' s))
      | Failed msg \<Rightarrow> rejected e k (ApiError msg) s)"

definition deliver :: "env \<Rightarrow> nat \<Rightarrow> response \<Rightarrow> app \<Rightarrow> app" where
  "deliver e n resp s =
     (if n < length (pending s) then
        settle e (snd (pending s ! n)) resp
          (s\<lparr>pending := take n (pending s) @ drop (Suc n) (pending s)\<rparr>)
      else s)"

text \<open>The answer to the request sent last arrives, before any other event.\<close>

definition answer :: "env \<Rightarrow> response \<Rightarrow> app \<Rightarrow> app" where
  "answer e resp s = deliver e (length (pending s) - 1) resp s"

section \<open>Properties\<close>

subsection \<open>Definitions used in the statements\<close>

text \<open>
  The date predicate that a value of the date filter stands for, and the conjunction of
  the five filters: a filter is inactive when its value is \<open>all\<close>.
\<close>

definition datePredicate :: "env \<Rightarrow> jsdate option \<Rightarrow> string \<Rightarrow> task \<Rightarrow> bool" where
  "datePredicate e custom d t =
     (let today = startOfDay e (now e);
          yesterday = addDays e today (- 1);
          tomorrow = addDays e today 1
      in if d = ''today'' then geD (timestamp t) (Some today) \<and> ltD (timestamp t) (Some tomorrow)
         else if d = ''yesterday'' then
           geD (timestamp t) (Some yesterday) \<and> ltD (timestamp t) (Some today)
         else if d = ''tomorrow'' then
           geD (timestamp t) (Some tomorrow)
           \<and> ltD (timestamp t) (Some (tomorrow + 24 * 60 * 60 * 1000))
         else if d = ''custom'' then
           (case custom of
              None \<Rightarrow> True
            | Some c \<Rightarrow> geD (timestamp t) c
                        \<and> ltD (timestamp t) (map_option (\<lambda>c'. addDays e c' 1) c))
         else True)"

definition satisfiesFilters :: "env \<Rightarrow> jsdate option \<Rightarrow> filters \<Rightarrow> task \<Rightarrow> bool" where
  "satisfiesFilters e custom f t =
     ((dateFilter f = ''all'' \<or> datePredicate e custom (dateFilter f) t)
      \<and> (branchFilter f = ''all'' \<or> branch t = branchFilter f)
      \<and> (staffFilter f = ''all'' \<or> assignedTo t = staffFilter f)
      \<and> (statusFilter f = ''all'' \<or> status t = statusFilter f)
      \<and> (serviceFilter f = ''all'' \<or> serviceType t = serviceFilter f))"

text \<open>The rows \<open>createTaskRow\<close> builds, and the state \<open>renderTasks\<close> reaches before the main table.\<close>

definition plainRow :: "task \<Rightarrow> row" where
  "plainRow t = \<lparr>row_task = t, editIndicator = edited t, controls = []\<rparr>"

definition rowControls :: "user \<Rightarrow> task \<Rightarrow> control list" where
  "rowControls u t =
     (if role u = ''admin'' then [EditBtn, DeleteBtn, ShareBtn]
      else if role u = ''manager'' then [EditBtn, ShareBtn]
      else if assignedTo t = username u \<or> username u \<in> set (sharedWith t)
        then [EditBtn, ShareBtn, statusSelect (status t)]
        else [statusSelect (status t), ShareBtn])"

definition renderedBase :: "env \<Rightarrow> app \<Rightarrow> app" where
  "renderedBase e s =
     renderOverdue e s
       (s\<lparr>taskTableBody := [], recentTasksTable := [], overdueTasksTable := [],
          recentTasksTable := map plainRow (take 10 (sortedTasks e s))\<rparr>)"

text \<open>The tasks that the overdue table of the dashboard lists from the client's own computation.\<close>

fun flaggedOverdue :: "overdueRow list \<Rightarrow> task list" where
  "flaggedOverdue [] = []"
| "flaggedOverdue (ClientOverdue t h # rs) = t # flaggedOverdue rs"
| "flaggedOverdue (BackendOverdue t h # rs) = flaggedOverdue rs"

subsection \<open>Example data\<close>

text \<open>
  The page as the script initialises it, with empty containers; a calendar in UTC; a
  task with the fields the examples vary.
\<close>

definition pageLoad :: app where
  "pageLoad =
     \<lparr>tasks = [], serviceDatabase = [], STAFF_LIST = [], currentUser = None,
      currentPage = ''dashboard'', editingTaskId = None, currentEditReason = [],
      sharingTaskId = None, currentFilters = allFilters, requests = [], pending = [],
      toasts = [], hiddenEls = {}, openModals = {}, taskTableBody = [],
      recentTasksTable = [], overdueTasksTable = [], allTasksContainer = [],
      myTasksContainer = [], extraTasksContainer = [], serviceListContainer = [],
      staffListModal = [], winnersCards = [], totalRevenue = None, dashboardCounters = None,
      staffPerformanceCards = [], staffAlertsContainer = [], staffPanelCounters = None,
      statusUpdateText = None, editReason_input = [], taskFormValues = emptyForm,
      formTitle = [], filterControls = allFilters, customDate = None\<rparr>"

definition utc :: "int \<Rightarrow> env" where
  "utc t = \<lparr>now = t, startOfDay = (\<lambda>x. x - x mod 86400000),
            addDays = (\<lambda>x k. x + k * 86400000),
            docOrder = [TaskTableBody, AllTasksContainer, MyTasksContainer,
                        ExtraTasksContainer]\<rparr>"

definition exampleTask :: "int \<Rightarrow> string \<Rightarrow> string \<Rightarrow> string \<Rightarrow> jsdate \<Rightarrow> task" where
  "exampleTask i st who br ts =
     \<lparr>task_id = i, orderNo = ''ORD'', customerName = ''Customer'', contactNumber = ''0'',
      serviceType = ''Passport'', status = st, assignedTo = who, branch = br,
      paymode = ''cash'', servicePrice = 0, paidAmount = 0, serviceCharge = 0,
      description = [], edited = False, editReason = None, sharedWith = [], date = [],
      timestamp = ts, takenOverBy = None\<rparr>"

definition exampleBackendTask :: "int \<Rightarrow> string \<Rightarrow> string \<Rightarrow> string list option \<Rightarrow> backendTask" where
  "exampleBackendTask i st who shared =
     \<lparr>id_b = i, order_no = ''ORD'', customer_name = ''Customer'', contact_number = ''0'',
      service_type = ''Passport'', status_b = st, assigned_to = who, branch_code = ''B1'',
      paymode_b = ''cash'', service_price = 0, paid_amount = 0, service_charge = 0,
      description_b = [], edited_b = False, edit_reason = None, shared_with = shared,
      task_date = [], created_at = Some 0\<rparr>"

definition adminUser :: user where
  "adminUser = \<lparr>user_id = 1, username = ''root'', role = ''admin'', email = []\<rparr>"

definition alice :: user where
  "alice = \<lparr>user_id = 2, username = ''alice'', role = ''staff'', email = []\<rparr>"

definition hour :: int where
  "hour = 1000 * 60 * 60"

definition w1 :: app where
  "w1 = pageLoad\<lparr>currentUser := Some adminUser,
          tasks := [exampleTask 1 ''Pending'' ''alice'' ''B1'' (Some 0),
                    exampleTask 2 ''Completed'' ''bob'' ''B2'' (Some 5)],
          currentFilters := allFilters\<lparr>branchFilter := ''B1''\<rparr>,
          filterControls := allFilters\<lparr>statusFilter := ''Completed''\<rparr>\<rparr>"

text \<open>
  Example states for C2: one Pending task of branch \<open>B2\<close> created at time 0, with the
  branch filter set to \<open>B1\<close> (\<open>w2\<close>) and with no filter (\<open>w2'\<close>).
\<close>

definition w2 :: app where
  "w2 = pageLoad\<lparr>currentUser := Some adminUser,
          tasks := [exampleTask 1 ''Pending'' ''alice'' ''B2'' (Some 0)],
          currentFilters := allFilters\<lparr>branchFilter := ''B1''\<rparr>\<rparr>"

definition w2' :: app where
  "w2' = pageLoad\<lparr>currentUser := Some adminUser,
          tasks := [exampleTask 1 ''Pending'' ''alice'' ''B2'' (Some 0)]\<rparr>"

text \<open>
  The request \<open>saveTask\<close> sends, and the state its \<open>.then\<close> handler reaches before it
  calls \<open>fetchTasksAndRender\<close>.
\<close>

definition saveRequest :: "app \<Rightarrow> request" where
  "saveRequest s =
     (case editingTaskId s of
        None \<Rightarrow> \<lparr>req_method = POST, req_url = ApiTasks,
                 req_body = TaskBody (mapUIToBackendTask (taskFormValues s))\<rparr>
      | Some i \<Rightarrow> \<lparr>req_method = PUT, req_url = ApiTask i,
                   req_body = TaskEditBody (mapUIToBackendTask (taskFormValues s))
                                (currentEditReason s)\<rparr>)"

definition savedState :: "app \<Rightarrow> app" where
  "savedState s =
     (hideTaskForm
        (showToast (if editingTaskId s = None then ''Task created successfully!''
                    else ''Task updated successfully!'') ''success''
           (s\<lparr>requests := requests s @ [saveRequest s]\<rparr>)))
       \<lparr>editReason_input := [], currentEditReason := [], editingTaskId := None\<rparr>"


text \<open>The user types \<open>r\<close> into the textarea of the reason modal.\<close>

definition typeReason :: "string \<Rightarrow> app \<Rightarrow> app" where
  "typeReason r s = s\<lparr>editReason_input := r\<rparr>"

text \<open>Example state for C5: the staff user alice has opened a task that was edited before.\<close>

definition w5 :: app where
  "w5 = pageLoad\<lparr>currentUser := Some alice,
          tasks := [(exampleTask 1 ''Pending'' ''alice'' ''B1'' (Some 0))\<lparr>edited := True\<rparr>],
          editingTaskId := Some 1\<rparr>"

text \<open>
  Example trace for C5. Alice, a staff user, opens the form for a new task and submits
  it; before the answer arrives she opens task 1 for editing and submits, and the reason
  modal opens; the answer to the first save arrives; she types a reason and saves.
\<close>

definition staffCreates :: app where
  "staffCreates =
     stateOf (handleTaskSubmit
       (showTaskForm
          (pageLoad\<lparr>currentUser := Some alice,
             tasks := [(exampleTask 1 ''Pending'' ''alice'' ''B1'' (Some 0))
                         \<lparr>edited := True\<rparr>]\<rparr>)))"

definition modalOpen :: app where
  "modalOpen = stateOf (handleTaskSubmit (stateOf (editTask 1 staffCreates)))"

definition firstSaveAnswered :: app where
  "firstSaveAnswered = deliver (utc 0) 0 (Ok NoData) modalOpen"

definition reasonSaved :: app where
  "reasonSaved = saveTaskWithReason (typeReason ''wrong phone number'' firstSaveAnswered)"

text \<open>The task as \<open>takeOverTask\<close> marks it for the user \<open>u\<close>.\<close>

definition takenOver :: "user \<Rightarrow> task \<Rightarrow> task" where
  "takenOver u t =
     t\<lparr>takenOverBy := Some (username u), edited := True,
       editReason := Some (''Task taken over by '' @ username u)\<rparr>"

text \<open>Example state for C7: alice's session, with a task of bob and a task of carol.\<close>

definition w7 :: app where
  "w7 = pageLoad\<lparr>currentUser := Some alice,
          tasks := [exampleTask 1 ''Pending'' ''bob'' ''B1'' (Some 0),
                    exampleTask 2 ''Pending'' ''carol'' ''B1'' (Some 0)]\<rparr>"

text \<open>
  The item \<open>populateServiceDatabase\<close> builds for a service in a session, and the
  property it flags: another service, of a different id, has the same name up to case.
\<close>

definition hasDuplicate :: "service list \<Rightarrow> service \<Rightarrow> bool" where
  "hasDuplicate db sv =
     (\<exists>x\<in>set db. service_id x \<noteq> service_id sv \<and> toLowerCase (name x) = toLowerCase (name sv))"

definition serviceItemFor :: "user \<Rightarrow> service list \<Rightarrow> service \<Rightarrow> serviceItem" where
  "serviceItemFor u db sv =
     \<lparr>item_service = sv,
      item_controls = (if role u \<noteq> ''staff'' then [EditBtn, DeleteBtn] else []),
      duplicate = hasDuplicate db sv\<rparr>"

text \<open>Example data for C9: three services, two of them named alike up to case.\<close>

definition exampleService :: "int \<Rightarrow> string \<Rightarrow> service" where
  "exampleService i n =
     \<lparr>service_id = i, name = n, price = 0, fee = 0, charge = 0, link = [], note_s = []\<rparr>"

definition w9 :: app where
  "w9 = pageLoad\<lparr>currentUser := Some adminUser,
          serviceDatabase := [exampleService 1 ''Passport'', exampleService 2 ''passport'',
                              exampleService 3 ''Visa'']\<rparr>"

text \<open>
  Example state for C10: alice has taken task 2 over, and a fetch of the task list is
  under way.
\<close>

definition w10 :: app where
  "w10 = fetchTasksAndRender False (stateOf (takeOverTask 2 w7))"

text \<open>The items \<open>showShareModal\<close> lists for a task: the staff-role users other than its assignee.\<close>

definition shareTargets :: "app \<Rightarrow> task \<Rightarrow> staffItem list" where
  "shareTargets s t =
     map (\<lambda>st. \<lparr>item_staff = staff_name st, selected = False\<rparr>)
       (filter (\<lambda>st. staff_name st \<noteq> assignedTo t \<and> staff_role st = ''staff'') (STAFF_LIST s))"

text \<open>
  Example data for C8: a task of the backend whose \<open>shared_with\<close> names its assignee,
  and a session with one task of alice and the staff list loaded.
\<close>

definition sharedWithAssignee :: backendTask where
  "sharedWithAssignee = exampleBackendTask 1 ''Pending'' ''bob'' (Some [''bob''])"

definition w8 :: app where
  "w8 = pageLoad\<lparr>currentUser := Some adminUser,
          tasks := [exampleTask 1 ''Pending'' ''alice'' ''B1'' (Some 0)],
          STAFF_LIST := [\<lparr>staff_name = ''alice'', staff_role = ''staff'', staff_email = []\<rparr>,
                         \<lparr>staff_name = ''bob'', staff_role = ''staff'', staff_email = []\<rparr>,
                         \<lparr>staff_name = ''root'', staff_role = ''admin'', staff_email = []\<rparr>]\<rparr>"

text \<open>
  Example state for C6: alice's session with one Pending task of hers, the staff panel
  populated, so that the task has a card with a status select under All Tasks and
  another under My Tasks; and the page with these two containers in the other order.
\<close>

definition w6 :: app where
  "w6 = updateStaffPanel
          (pageLoad\<lparr>currentUser := Some alice,
             tasks := [exampleTask 1 ''Pending'' ''alice'' ''B1'' (Some 0)]\<rparr>)"

definition otherOrder :: env where
  "otherOrder = (utc 0)\<lparr>docOrder := [TaskTableBody, MyTasksContainer, AllTasksContainer,
                                      ExtraTasksContainer]\<rparr>"

definition shownStatus :: "card list \<Rightarrow> string option list" where
  "shownStatus cs = map (\<lambda>c. getSelect (card_controls c)) cs"

text \<open>
  Example trace for C4. An admin logs in; the task list arrives and is rendered; the
  admin opens the Tasks page and logs out; alice, a staff user, logs in in the same tab.
\<close>

definition adminLoggedIn :: app where
  "adminLoggedIn =
     answer (utc 0) (Ok (LoginData (Some adminUser))) (handleLogin ''root'' ''secret'' pageLoad)"

definition adminSession :: app where
  "adminSession =
     deliver (utc 0) 3 (Ok (TasksData [exampleBackendTask 1 ''Pending'' ''alice'' None]))
       adminLoggedIn"

definition staffAfterAdmin :: app where
  "staffAfterAdmin =
     answer (utc 0) (Ok (LoginData (Some alice)))
       (handleLogin ''alice'' ''secret''
          (handleLogout (stateOf (navigateToPage (utc 0) ''tasks'' adminSession))))"

text \<open>
  The same with the dashboard: the statistics and the top performers arrive in the
  admin's session, then the admin logs out and alice logs in.
\<close>

definition exampleWinner :: winner where
  "exampleWinner = \<lparr>winner_name = ''bob'', winner_completed = 3, winner_revenue = Some 500,
                    winner_score = 9\<rparr>"

definition adminDashboard :: app where
  "adminDashboard =
     deliver (utc 0) 5 (Ok (TopData [exampleWinner]))
       (deliver (utc 0) 2
          (Ok (StatsData \<lparr>total_tasks = 1, tasks_today = 1, completed_tasks = 0,
                          total_revenue = Some 500\<rparr>))
          adminLoggedIn)"

definition staffAfterDashboard :: app where
  "staffAfterDashboard =
     answer (utc 0) (Ok (LoginData (Some alice)))
       (handleLogin ''alice'' ''secret'' (handleLogout adminDashboard))"

subsection \<open>Auxiliary facts\<close>

lemma mset_insertBy: "mset (insertBy cmp x xs) = add_mset x (mset xs)"
  by (induction xs) auto

lemma mset_sortBy: "mset (sortBy cmp xs) = mset xs"
  unfolding sortBy_def by (induction xs) (auto simp: mset_insertBy)

lemma forEachAppend_ok:
  "\<forall>x\<in>set xs. f x = Inr (g x) \<Longrightarrow> forEachAppend f xs acc = (None, acc @ map g xs)"
  by (induction xs arbitrary: acc) auto

lemma forEachAppend_fail:
  "\<forall>x\<in>set xs. f x = Inl err \<Longrightarrow> xs \<noteq> [] \<Longrightarrow> forEachAppend f xs acc = (Some err, acc)"
  by (cases xs) auto

lemma filterTasksByDate_eq:
  "filterTasksByDate e s ts d = filter (datePredicate e (customDate s) d) ts"
  unfolding filterTasksByDate_def datePredicate_def Let_def
  by (simp split: option.splits)

lemma filteredTasks_eq:
  "filteredTasks e s = filter (satisfiesFilters e (customDate s) (currentFilters s)) (tasks s)"
  unfolding filteredTasks_def Let_def filterTasksByDate_eq satisfiesFilters_def
  by (simp cong: conj_cong)

lemma mset_sortedTasks:
  "mset (sortedTasks e s)
     = filter_mset (satisfiesFilters e (customDate s) (currentFilters s)) (mset (tasks s))"
  by (simp add: sortedTasks_def mset_sortBy filteredTasks_eq)

lemma set_sortedTasks:
  "set (sortedTasks e s)
     = {t \<in> set (tasks s). satisfiesFilters e (customDate s) (currentFilters s) t}"
proof -
  have "set (sortedTasks e s) = set_mset (mset (sortedTasks e s))" by simp
  also have "\<dots> = {t \<in> set (tasks s). satisfiesFilters e (customDate s) (currentFilters s) t}"
    unfolding mset_sortedTasks by auto
  finally show ?thesis .
qed

lemma createTaskRow_plain: "createTaskRow s t False = Inr (plainRow t)"
  by (simp add: createTaskRow_def plainRow_def)

lemma createTaskRow_user:
  "currentUser s = Some u \<Longrightarrow>
   createTaskRow s t True = Inr ((plainRow t)\<lparr>controls := rowControls u t\<rparr>)"
  by (simp add: createTaskRow_def plainRow_def rowControls_def)

lemma createTaskRow_nouser: "currentUser s = None \<Longrightarrow> createTaskRow s t True = Inl TypeError"
  by (simp add: createTaskRow_def)

lemma recentRows: "forEachAppend (\<lambda>t. createTaskRow s t False) xs [] = (None, map plainRow xs)"
  using forEachAppend_ok[of xs "\<lambda>t. createTaskRow s t False" plainRow "[]"]
  by (simp add: createTaskRow_plain)

lemma tableRows_user:
  "currentUser s = Some u \<Longrightarrow>
   forEachAppend (\<lambda>t. createTaskRow s t True) xs []
     = (None, map (\<lambda>t. (plainRow t)\<lparr>controls := rowControls u t\<rparr>) xs)"
  using forEachAppend_ok[of xs "\<lambda>t. createTaskRow s t True"
          "\<lambda>t. (plainRow t)\<lparr>controls := rowControls u t\<rparr>" "[]"]
  by (simp add: createTaskRow_user)

lemma tableRows_nouser:
  "currentUser s = None \<Longrightarrow> xs \<noteq> [] \<Longrightarrow>
   forEachAppend (\<lambda>t. createTaskRow s t True) xs [] = (Some TypeError, [])"
  using forEachAppend_fail[of xs "\<lambda>t. createTaskRow s t True" TypeError "[]"]
  by (simp add: createTaskRow_nouser)

text \<open>\<open>renderTasks\<close> by cases: a session, no session and rows to build, no session and no row.\<close>

lemma renderTasks_user:
  "currentUser s = Some u \<Longrightarrow>
   renderTasks e s =
     Normal ((renderedBase e s)
       \<lparr>taskTableBody := map (\<lambda>t. (plainRow t)\<lparr>controls := rowControls u t\<rparr>) (sortedTasks e s)\<rparr>)"
  unfolding renderTasks_def renderedBase_def Let_def
  by (simp only: recentRows tableRows_user prod.case option.case)

lemma renderTasks_nouser:
  assumes "currentUser s = None" and "sortedTasks e s \<noteq> []"
  shows "renderTasks e s = Throw TypeError ((renderedBase e s)\<lparr>taskTableBody := []\<rparr>)"
  unfolding renderTasks_def renderedBase_def Let_def
  by (simp only: recentRows tableRows_nouser[OF assms] prod.case option.case)

lemma renderTasks_empty:
  assumes "sortedTasks e s = []"
  shows "renderTasks e s = Normal ((renderedBase e s)\<lparr>taskTableBody := []\<rparr>)"
  unfolding renderTasks_def renderedBase_def Let_def
  by (simp only: recentRows assms forEachAppend.simps prod.case option.case)

lemma renderTasks_stateOf:
  "\<exists>rows. stateOf (renderTasks e s) = (renderedBase e s)\<lparr>taskTableBody := rows\<rparr>"
proof (cases "currentUser s")
  case (Some u)
  show ?thesis unfolding renderTasks_user[OF Some] by (simp only: stateOf.simps) blast
next
  case None
  show ?thesis
  proof (cases "sortedTasks e s = []")
    case True
    show ?thesis unfolding renderTasks_empty[OF True] by (simp only: stateOf.simps) blast
  next
    case False
    show ?thesis unfolding renderTasks_nouser[OF None False] by (simp only: stateOf.simps) blast
  qed
qed

lemma renderedBase_tasks: "tasks (renderedBase e s) = tasks s"
  by (simp add: renderedBase_def renderOverdue_def hide_def unhide_def)

lemma row_task_rows:
  "map row_task (map (\<lambda>t. (plainRow t)\<lparr>controls := rowControls u t\<rparr>) xs) = xs"
  by (induction xs) (simp_all add: plainRow_def)

lemma renderTasks_rows:
  assumes "currentUser s = Some u" and "renderTasks e s = Normal s'"
  shows "map row_task (taskTableBody s') = sortedTasks e s" and "tasks s' = tasks s"
proof -
  have eq: "s' = (renderedBase e s)
       \<lparr>taskTableBody := map (\<lambda>t. (plainRow t)\<lparr>controls := rowControls u t\<rparr>) (sortedTasks e s)\<rparr>"
    using renderTasks_user[OF assms(1), of e] assms(2) by simp
  show "map row_task (taskTableBody s') = sortedTasks e s"
    unfolding eq by (simp add: row_task_rows del: map_map)
  show "tasks s' = tasks s"
    unfolding eq by (simp add: renderedBase_tasks)
qed

lemma renderTasks_filters:
  assumes "currentUser s = Some u"
  shows "\<exists>s'. renderTasks e s = Normal s'
           \<and> mset (map row_task (taskTableBody s'))
               = filter_mset (satisfiesFilters e (customDate s) (currentFilters s)) (mset (tasks s))
           \<and> tasks s' = tasks s"
proof -
  obtain s' where r: "renderTasks e s = Normal s'"
    using renderTasks_user[OF assms, of e] by simp
  have "mset (map row_task (taskTableBody s'))
          = filter_mset (satisfiesFilters e (customDate s) (currentFilters s)) (mset (tasks s))"
    by (simp only: renderTasks_rows(1)[OF assms r] mset_sortedTasks)
  moreover have "tasks s' = tasks s" by (rule renderTasks_rows(2)[OF assms r])
  ultimately show ?thesis using r by blast
qed

subsection \<open>C1: the rendered task list is the filtered cache\<close>

text \<open>
  Claim C1. In a session, \<open>renderTasks\<close> fills the task table with one row for each
  cached task that satisfies every active filter (date, branch, staff, status, service,
  each inactive when \<open>all\<close>), no other row and none twice, and leaves the cache as it
  was; \<open>applyTaskFilters\<close> does the same with the filters read from the controls.
\<close>

theorem C1_rendered_tasks_are_the_filtered_cache:
  assumes "currentUser s = Some u"
  shows "(\<exists>s'. renderTasks e s = Normal s'
            \<and> mset (map row_task (taskTableBody s'))
                = filter_mset (satisfiesFilters e (customDate s) (currentFilters s))
                    (mset (tasks s))
            \<and> tasks s' = tasks s)
       \<and> (\<exists>s'. applyTaskFilters e s = Normal s'
            \<and> currentFilters s' = filterControls s
            \<and> mset (map row_task (taskTableBody s'))
                = filter_mset (satisfiesFilters e (customDate s) (filterControls s))
                    (mset (tasks s))
            \<and> tasks s' = tasks s)"
proof
  show "\<exists>s'. renderTasks e s = Normal s'
            \<and> mset (map row_task (taskTableBody s'))
                = filter_mset (satisfiesFilters e (customDate s) (currentFilters s))
                    (mset (tasks s))
            \<and> tasks s' = tasks s"
    by (rule renderTasks_filters[OF assms])
next
  let ?s1 = "s\<lparr>currentFilters := filterControls s\<rparr>"
  have u: "currentUser ?s1 = Some u" using assms by simp
  obtain s' where r: "renderTasks e ?s1 = Normal s'"
    and m: "mset (map row_task (taskTableBody s'))
              = filter_mset (satisfiesFilters e (customDate ?s1) (currentFilters ?s1))
                  (mset (tasks ?s1))"
    and t: "tasks s' = tasks ?s1"
    using renderTasks_filters[OF u, of e] by blast
  have f: "currentFilters s' = filterControls s"
    using renderTasks_user[OF u, of e] r
    by (auto simp: renderedBase_def renderOverdue_def hide_def unhide_def)
  let ?s2 = "showToast ''Filters applied successfully!'' ''success'' s'"
  have "applyTaskFilters e s = Normal ?s2"
    by (simp add: applyTaskFilters_def r)
  moreover have "currentFilters ?s2 = filterControls s" using f by (simp add: showToast_def)
  moreover have "mset (map row_task (taskTableBody ?s2))
       = filter_mset (satisfiesFilters e (customDate s) (filterControls s)) (mset (tasks s))"
    using m by (simp add: showToast_def)
  moreover have "tasks ?s2 = tasks s" using t by (simp add: showToast_def)
  ultimately show "\<exists>s'. applyTaskFilters e s = Normal s'
            \<and> currentFilters s' = filterControls s
            \<and> mset (map row_task (taskTableBody s'))
                = filter_mset (satisfiesFilters e (customDate s) (filterControls s))
                    (mset (tasks s))
            \<and> tasks s' = tasks s"
    by blast
qed

theorem C1_witness:
  "currentUser w1 = Some adminUser
   \<and> (\<exists>s'. renderTasks (utc 0) w1 = Normal s'
         \<and> mset (map row_task (taskTableBody s'))
             = filter_mset (satisfiesFilters (utc 0) (customDate w1) (currentFilters w1))
                 (mset (tasks w1))
         \<and> tasks s' = tasks w1)"
proof -
  have h: "currentUser w1 = Some adminUser" by (simp add: w1_def)
  from C1_rendered_tasks_are_the_filtered_cache[OF h, of "utc 0"] h show ?thesis by blast
qed

subsection \<open>C2: the overdue flag\<close>

lemma hoursDiff_gt_24: "(hoursDiff n ts > 24) = (n - ts > 24 * hour)"
proof -
  have "(24 < (of_int (n - ts) :: rat) / 3600000) = ((24 :: rat) * 3600000 < of_int (n - ts))"
    by (simp add: pos_less_divide_eq)
  also have "\<dots> = ((of_int 86400000 :: rat) < of_int (n - ts))" by simp
  also have "\<dots> = (86400000 < n - ts)" by (simp only: of_int_less_iff)
  finally show ?thesis by (simp add: hoursDiff_def hour_def)
qed

lemma isOverdue_iff:
  "isOverdue n t \<longleftrightarrow>
     (status t = ''Pending'' \<or> status t = ''In Progress'' \<or> status t = ''Hold'')
     \<and> (\<exists>ts. timestamp t = Some ts \<and> n - ts > 24 * hour)"
  by (cases "timestamp t") (simp_all add: isOverdue_def hoursDiff_gt_24)

lemma flaggedOverdue_map: "flaggedOverdue (map (overdueRowOf n) xs) = xs"
  by (induction xs) (simp_all add: overdueRowOf_def)

lemma renderedBase_overdue:
  "overdueTasksTable (renderedBase e s) = map (overdueRowOf (now e)) (overdueTasks e s)"
  by (simp add: renderedBase_def renderOverdue_def hide_def unhide_def)

lemma renderedBase_frame:
  "requests (renderedBase e s) = requests s"
  "pending (renderedBase e s) = pending s"
  "currentUser (renderedBase e s) = currentUser s"
  "currentFilters (renderedBase e s) = currentFilters s"
  "currentPage (renderedBase e s) = currentPage s"
  "toasts (renderedBase e s) = toasts s"
  "allTasksContainer (renderedBase e s) = allTasksContainer s"
  "myTasksContainer (renderedBase e s) = myTasksContainer s"
  "extraTasksContainer (renderedBase e s) = extraTasksContainer s"
  by (simp_all add: renderedBase_def renderOverdue_def hide_def unhide_def)

lemma renderTasks_frame:
  "tasks (stateOf (renderTasks e s)) = tasks s"
  "requests (stateOf (renderTasks e s)) = requests s"
  "pending (stateOf (renderTasks e s)) = pending s"
  "currentUser (stateOf (renderTasks e s)) = currentUser s"
  "currentPage (stateOf (renderTasks e s)) = currentPage s"
  "toasts (stateOf (renderTasks e s)) = toasts s"
  "overdueTasksTable (stateOf (renderTasks e s)) = map (overdueRowOf (now e)) (overdueTasks e s)"
  using renderTasks_stateOf[of e s]
  by (auto simp: renderedBase_tasks renderedBase_frame renderedBase_overdue)

text \<open>The staff alerts use the same predicate, on the whole cache, grouped by assignee.\<close>

lemma updateStaffAlerts_overdue:
  "(n, ts) \<in> set (staffAlertsContainer (updateStaffAlerts e s)) \<Longrightarrow>
   ts \<noteq> [] \<and> ts = filter (isOverdue (now e)) (filter (\<lambda>t. assignedTo t = n) (tasks s))"
  by (auto simp: updateStaffAlerts_def)

text \<open>
  Claim C2 as stated ("for every task ... flagged overdue by the render if and only if")
  fails for a cached task that an active filter excludes: the overdue table is computed
  from \<open>sortedTasks\<close>, the filtered list. With the branch filter on \<open>B1\<close>, a Pending
  task of branch \<open>B2\<close> that is 25 hours old is in the cache and is not flagged.
\<close>

theorem C2_counterexample:
  "exampleTask 1 ''Pending'' ''alice'' ''B2'' (Some 0) \<in> set (tasks w2)
   \<and> 25 * hour - 0 > 24 * hour
   \<and> exampleTask 1 ''Pending'' ''alice'' ''B2'' (Some 0)
       \<notin> set (flaggedOverdue (overdueTasksTable (stateOf (renderTasks (utc (25 * hour)) w2))))"
  by code_simp

text \<open>
  Claim C2, amended. Whatever the session, the tasks that \<open>renderTasks\<close> lists in the
  overdue table are exactly the cached tasks that satisfy the active filters, whose
  status is Pending, In Progress or Hold, and whose timestamp is a valid date more than
  24 hours before now. The table is computed at each render from the cache, which the
  render leaves unchanged: a task has no field for the flag.
\<close>

theorem C2_overdue_among_the_filtered_tasks:
  "(t \<in> set (flaggedOverdue (overdueTasksTable (stateOf (renderTasks e s))))
      \<longleftrightarrow> t \<in> set (tasks s)
          \<and> satisfiesFilters e (customDate s) (currentFilters s) t
          \<and> (status t = ''Pending'' \<or> status t = ''In Progress'' \<or> status t = ''Hold'')
          \<and> (\<exists>ts. timestamp t = Some ts \<and> now e - ts > 24 * hour))
   \<and> tasks (stateOf (renderTasks e s)) = tasks s"
proof -
  have "set (flaggedOverdue (overdueTasksTable (stateOf (renderTasks e s))))
          = {t \<in> set (sortedTasks e s). isOverdue (now e) t}"
    by (simp add: renderTasks_frame flaggedOverdue_map overdueTasks_def)
  then show ?thesis
    by (simp add: set_sortedTasks isOverdue_iff renderTasks_frame)
qed

text \<open>With no filter, the Pending task is flagged at 25 hours and not at 23.\<close>

theorem C2_witness:
  "exampleTask 1 ''Pending'' ''alice'' ''B2'' (Some 0)
     \<in> set (flaggedOverdue (overdueTasksTable (stateOf (renderTasks (utc (25 * hour)) w2'))))
   \<and> exampleTask 1 ''Pending'' ''alice'' ''B2'' (Some 0)
     \<notin> set (flaggedOverdue (overdueTasksTable (stateOf (renderTasks (utc (23 * hour)) w2'))))"
proof -
  let ?t = "exampleTask 1 ''Pending'' ''alice'' ''B2'' (Some 0)"
  have a: "?t \<in> set (tasks w2')" by (simp add: w2'_def)
  have b: "satisfiesFilters e (customDate w2') (currentFilters w2') ?t" for e
    by (simp add: w2'_def pageLoad_def satisfiesFilters_def allFilters_def)
  have c: "status ?t = ''Pending''" and d: "timestamp ?t = Some 0"
    by (simp_all add: exampleTask_def)
  have n: "now (utc x) = x" for x by (simp add: utc_def)
  show ?thesis
    using C2_overdue_among_the_filtered_tasks[of ?t "utc (25 * hour)" w2']
          C2_overdue_among_the_filtered_tasks[of ?t "utc (23 * hour)" w2']
    by (simp add: a b c d n hour_def)
qed

subsection \<open>C3: what follows a save and a delete\<close>

lemma answer_apiFetch:
  "answer e resp (apiFetch m url b k s)
     = settle e k resp
         (s\<lparr>requests := requests s @ [\<lparr>req_method = m, req_url = url, req_body = b\<rparr>]\<rparr>)"
  by (simp add: answer_def deliver_def apiFetch_def Let_def)

lemma request_eta:
  "\<lparr>req_method = req_method r, req_url = req_url r, req_body = req_body r\<rparr> = r"
  by simp

lemma saveTask_apiFetch:
  "saveTask s = apiFetch (req_method (saveRequest s)) (req_url (saveRequest s))
                  (req_body (saveRequest s)) K_saveTask s"
  by (simp add: saveTask_def saveRequest_def Let_def split: option.splits)


lemma saveTask_frame:
  "tasks (saveTask s) = tasks s" "pending (saveTask s) = pending s @ [(saveRequest s, K_saveTask)]"
  by (simp_all add: saveTask_apiFetch apiFetch_def Let_def)

lemma answer_saveTask_ok:
  "answer e (Ok d) (saveTask s) = fetchTasksAndRender False (savedState s)"
  unfolding saveTask_apiFetch answer_apiFetch
  by (simp add: settle_def fulfilled_def savedState_def request_eta)


lemma afterFetchTasks_tasks: "tasks (afterFetchTasks b s) = tasks s"
  by (simp add: afterFetchTasks_def updateStaffPanel_def populateAllTasks_def populateMyTasks_def
      populateExtraTasks_def Let_def split: option.splits)

lemma fulfilled_fetchTasks_tasks:
  "tasks (fulfilled e (K_fetchTasks b) (TasksData ts) s) = map mapBackendTaskToUI ts"
proof -
  let ?s1 = "s\<lparr>tasks := map mapBackendTaskToUI ts\<rparr>"
  have t: "tasks (stateOf (renderTasks e ?s1)) = map mapBackendTaskToUI ts"
    by (simp add: renderTasks_frame)
  show ?thesis
  proof (cases "renderTasks e ?s1")
    case (Normal s')
    then show ?thesis using t
      by (simp add: fulfilled_def afterFetchTasks_tasks updateDashboard_def apiFetch_def Let_def)
  next
    case (Throw err s')
    then show ?thesis using t
      by (simp add: fulfilled_def rejected_def afterFetchTasks_tasks showToast_def)
  qed
qed







subsection \<open>C5: a staff edit needs a reason\<close>

text \<open>
  What holds of claim C5, when nothing else happens between the submission and the save
  from the modal. A staff user submits the form of a task being edited (already edited
  or not): the reason modal is displayed and nothing is sent. Saving with a reason that
  is empty after \<open>trim\<close> sends nothing, shows the error toast and leaves the modal
  displayed; with any other reason the modal is closed and \<open>PUT /api/tasks/:id\<close> is
  sent, its body carrying the trimmed reason as \<open>edit_reason\<close>.
\<close>

lemma staff_edit_reason_uninterrupted:
  assumes "currentUser s = Some u" and "role u = ''staff''" and "editingTaskId s = Some i"
  shows "handleTaskSubmit s = Normal (openModal EditReasonModal s)
       \<and> EditReasonModal \<in> openModals (stateOf (handleTaskSubmit s))
       \<and> requests (stateOf (handleTaskSubmit s)) = requests s
       \<and> pending (stateOf (handleTaskSubmit s)) = pending s
       \<and> (trim r = [] \<longrightarrow>
            requests (saveTaskWithReason (typeReason r (openModal EditReasonModal s)))
              = requests s
            \<and> pending (saveTaskWithReason (typeReason r (openModal EditReasonModal s)))
              = pending s
            \<and> toasts (saveTaskWithReason (typeReason r (openModal EditReasonModal s)))
              = toasts s @ [(''Please provide a reason for the change.'', ''error'')]
            \<and> EditReasonModal
                 \<in> openModals (saveTaskWithReason (typeReason r (openModal EditReasonModal s))))
       \<and> (trim r \<noteq> [] \<longrightarrow>
            requests (saveTaskWithReason (typeReason r (openModal EditReasonModal s)))
              = requests s
                @ [\<lparr>req_method = PUT, req_url = ApiTask i,
                    req_body = TaskEditBody (mapUIToBackendTask (taskFormValues s)) (trim r)\<rparr>]
            \<and> EditReasonModal
                 \<notin> openModals (saveTaskWithReason (typeReason r (openModal EditReasonModal s))))"
  using assms
  by (simp add: handleTaskSubmit_def saveTaskWithReason_def saveTask_def typeReason_def
      openModal_def closeModal_def showToast_def apiFetch_def Let_def)

lemma staff_edit_reason_example:
  "EditReasonModal \<in> openModals (stateOf (handleTaskSubmit w5))
   \<and> requests (saveTaskWithReason (typeReason ''  '' (openModal EditReasonModal w5)))
       = requests w5
   \<and> requests (saveTaskWithReason
                 (typeReason '' wrong phone number '' (openModal EditReasonModal w5)))
       = [\<lparr>req_method = PUT, req_url = ApiTask 1,
           req_body = TaskEditBody (mapUIToBackendTask emptyForm) ''wrong phone number''\<rparr>]"
  by code_simp

text \<open>
  The save from the modal with an empty reason sends nothing in any state; with another
  reason it sends what \<open>saveTask\<close> sends for the \<open>editingTaskId\<close> of that moment, and
  the handler of a successful save resets \<open>editingTaskId\<close> whether or not the modal is
  displayed.
\<close>

lemma saveTaskWithReason_empty:
  "trim (editReason_input s) = [] \<Longrightarrow>
   requests (saveTaskWithReason s) = requests s \<and> pending (saveTaskWithReason s) = pending s
   \<and> openModals (saveTaskWithReason s) = openModals s"
  by (simp add: saveTaskWithReason_def showToast_def Let_def)

lemma saveTaskWithReason_sends:
  "trim (editReason_input s) \<noteq> [] \<Longrightarrow>
   requests (saveTaskWithReason s)
     = requests s
       @ [case editingTaskId s of
            None \<Rightarrow> \<lparr>req_method = POST, req_url = ApiTasks,
                     req_body = TaskBody (mapUIToBackendTask (taskFormValues s))\<rparr>
          | Some i \<Rightarrow> \<lparr>req_method = PUT, req_url = ApiTask i,
                        req_body = TaskEditBody (mapUIToBackendTask (taskFormValues s))
                                     (trim (editReason_input s))\<rparr>]"
  by (simp add: saveTaskWithReason_def saveTask_def closeModal_def apiFetch_def Let_def
      split: option.splits)

text \<open>
  Claim C5 fails when the answer to an earlier save arrives while the reason modal is
  displayed. The handler of that answer resets \<open>editingTaskId\<close> and leaves the modal
  as it is; \<open>saveTaskWithReason\<close> does not look at \<open>editingTaskId\<close>, and \<open>saveTask\<close>
  then takes the edit for a new task: the reason is accepted, the modal closes, and the
  request is \<open>POST /api/tasks\<close> with the form's values and no \<open>edit_reason\<close>. No
  \<open>PUT\<close> is ever sent for task 1.
\<close>

theorem C5_failing_input:
  "map_option role (currentUser modalOpen) = Some ''staff''
   \<and> editingTaskId modalOpen = Some 1
   \<and> EditReasonModal \<in> openModals modalOpen
   \<and> map snd (pending modalOpen) = [K_saveTask]
   \<and> editingTaskId firstSaveAnswered = None
   \<and> EditReasonModal \<in> openModals firstSaveAnswered
   \<and> trim ''wrong phone number'' = ''wrong phone number''
   \<and> EditReasonModal \<notin> openModals reasonSaved
   \<and> map req_method (requests reasonSaved) = [POST, GET, POST]
   \<and> map req_url (requests reasonSaved) = [ApiTasks, ApiTasks, ApiTasks]
   \<and> req_body (last (requests reasonSaved))
       = TaskBody (mapUIToBackendTask (taskFormValues modalOpen))"
  by code_simp

subsection \<open>C7: taking a task over\<close>

lemma findIndex_Some:
  "findIndex P xs = Some i \<Longrightarrow> i < length xs \<and> P (xs ! i)"
proof (induction xs arbitrary: i)
  case Nil
  then show ?case by simp
next
  case (Cons x xs)
  then show ?case by (auto split: if_splits)
qed

lemma findIndex_None: "(findIndex P xs = None) = (\<forall>x\<in>set xs. \<not> P x)"
  by (induction xs) auto

lemma updateStaffPanel_frame:
  "tasks (updateStaffPanel s) = tasks s"
  "requests (updateStaffPanel s) = requests s"
  "pending (updateStaffPanel s) = pending s"
  "currentUser (updateStaffPanel s) = currentUser s"
  by (simp_all add: updateStaffPanel_def populateAllTasks_def populateMyTasks_def
      populateExtraTasks_def Let_def split: option.splits)

lemma takeOverTask_found:
  assumes "currentUser s = Some u" and "findIndex (\<lambda>t. task_id t = taskId) (tasks s) = Some i"
  shows "takeOverTask taskId s
           = Normal (showToast ''Task taken over successfully!'' ''success''
                       (updateStaffPanel (s\<lparr>tasks := (tasks s)[i := takenOver u (tasks s ! i)]\<rparr>)))"
  using assms by (simp add: takeOverTask_def takenOver_def Let_def)

lemma takeOverTask_frame:
  "requests (stateOf (takeOverTask taskId s)) = requests s"
  "pending (stateOf (takeOverTask taskId s)) = pending s"
  by (simp_all add: takeOverTask_def Let_def showToast_def updateStaffPanel_frame
      split: option.splits)

text \<open>
  Claim C7. \<open>takeOverTask\<close> sends no request, whatever the state. In a session, for an
  id that some cached task has, it returns normally, the first task of that id gets the
  current user's name as \<open>takenOverBy\<close>, and the task at every other position of the
  cache is unchanged.
\<close>

theorem C7_takeOverTask_is_local:
  assumes "currentUser s = Some u" and "taskId \<in> task_id ` set (tasks s)"
  shows "requests (stateOf (takeOverTask taskId s)) = requests s
       \<and> pending (stateOf (takeOverTask taskId s)) = pending s
       \<and> (\<exists>s' i. takeOverTask taskId s = Normal s'
             \<and> i < length (tasks s) \<and> task_id (tasks s ! i) = taskId
             \<and> length (tasks s') = length (tasks s)
             \<and> takenOverBy (tasks s' ! i) = Some (username u)
             \<and> task_id (tasks s' ! i) = taskId
             \<and> (\<forall>j < length (tasks s). j \<noteq> i \<longrightarrow> tasks s' ! j = tasks s ! j))"
proof -
  have "findIndex (\<lambda>t. task_id t = taskId) (tasks s) \<noteq> None"
    using assms(2) by (auto simp: findIndex_None)
  then obtain i where i: "findIndex (\<lambda>t. task_id t = taskId) (tasks s) = Some i" by blast
  have b: "i < length (tasks s)" "task_id (tasks s ! i) = taskId"
    using findIndex_Some[OF i] by simp_all
  let ?s' = "showToast ''Task taken over successfully!'' ''success''
               (updateStaffPanel (s\<lparr>tasks := (tasks s)[i := takenOver u (tasks s ! i)]\<rparr>))"
  have t: "tasks ?s' = (tasks s)[i := takenOver u (tasks s ! i)]"
    by (simp add: showToast_def updateStaffPanel_frame)
  have "takeOverTask taskId s = Normal ?s'" by (rule takeOverTask_found[OF assms(1) i])
  moreover have "length (tasks ?s') = length (tasks s)" by (simp add: t)
  moreover have "takenOverBy (tasks ?s' ! i) = Some (username u)"
    unfolding t using b by (simp add: takenOver_def)
  moreover have "task_id (tasks ?s' ! i) = taskId"
    unfolding t using b by (simp add: takenOver_def)
  moreover have "\<forall>j < length (tasks s). j \<noteq> i \<longrightarrow> tasks ?s' ! j = tasks s ! j"
    by (simp add: t)
  ultimately show ?thesis using b takeOverTask_frame[of taskId s] by blast
qed

theorem C7_witness:
  "currentUser w7 = Some alice \<and> (2::int) \<in> task_id ` set (tasks w7)
   \<and> requests (stateOf (takeOverTask 2 w7)) = requests w7
   \<and> map takenOverBy (tasks (stateOf (takeOverTask 2 w7))) = [None, Some ''alice'']"
proof -
  have h: "currentUser w7 = Some alice" "(2::int) \<in> task_id ` set (tasks w7)"
    by (simp_all add: w7_def exampleTask_def)
  have v: "map takenOverBy (tasks (stateOf (takeOverTask 2 w7))) = [None, Some ''alice'']"
    by code_simp
  from C7_takeOverTask_is_local[OF h] h v show ?thesis by blast
qed

subsection \<open>C9: duplicate service names\<close>

lemma createServiceItem_user:
  "currentUser s = Some u \<Longrightarrow>
   createServiceItem s sv = Inr (serviceItemFor u (serviceDatabase s) sv)"
  unfolding createServiceItem_def serviceItemFor_def hasDuplicate_def Let_def
  by (simp add: filter_empty_conv conj_commute)

lemma populateServiceDatabase_user:
  assumes "currentUser s = Some u"
  shows "populateServiceDatabase s
           = Normal (s\<lparr>serviceListContainer :=
                        map (serviceItemFor u (serviceDatabase s)) (serviceDatabase s)\<rparr>)"
proof -
  have "forEachAppend (createServiceItem s) xs []
          = (None, map (serviceItemFor u (serviceDatabase s)) xs)" for xs
    using forEachAppend_ok[of xs "createServiceItem s" "serviceItemFor u (serviceDatabase s)" "[]"]
    by (simp add: createServiceItem_user[OF assms])
  then show ?thesis by (simp add: populateServiceDatabase_def)
qed

text \<open>
  Claim C9. In a session, \<open>populateServiceDatabase\<close> renders one item for each service
  of the catalogue, in order, none left out, and an item carries the duplicate warning
  if and only if some service of the catalogue with a different id has the same name
  after \<open>toLowerCase\<close>.
\<close>

theorem C9_duplicates_flagged_not_rejected:
  assumes "currentUser s = Some u"
  shows "\<exists>s'. populateServiceDatabase s = Normal s'
           \<and> map item_service (serviceListContainer s') = serviceDatabase s
           \<and> (\<forall>it\<in>set (serviceListContainer s').
                 duplicate it \<longleftrightarrow>
                   (\<exists>x\<in>set (serviceDatabase s).
                      service_id x \<noteq> service_id (item_service it)
                      \<and> toLowerCase (name x) = toLowerCase (name (item_service it))))"
proof -
  let ?s' = "s\<lparr>serviceListContainer :=
                 map (serviceItemFor u (serviceDatabase s)) (serviceDatabase s)\<rparr>"
  have "populateServiceDatabase s = Normal ?s'" by (rule populateServiceDatabase_user[OF assms])
  moreover have "map item_service (serviceListContainer ?s') = serviceDatabase s"
    by (simp add: o_def serviceItemFor_def)
  moreover have "\<forall>it\<in>set (serviceListContainer ?s').
                 duplicate it \<longleftrightarrow>
                   (\<exists>x\<in>set (serviceDatabase s).
                      service_id x \<noteq> service_id (item_service it)
                      \<and> toLowerCase (name x) = toLowerCase (name (item_service it)))"
    by (auto simp: serviceItemFor_def hasDuplicate_def)
  ultimately show ?thesis by blast
qed

theorem C9_witness:
  "currentUser w9 = Some adminUser
   \<and> map duplicate (serviceListContainer (stateOf (populateServiceDatabase w9)))
       = [True, True, False]
   \<and> (\<exists>s'. populateServiceDatabase w9 = Normal s'
         \<and> map item_service (serviceListContainer s') = serviceDatabase w9)"
proof -
  have h: "currentUser w9 = Some adminUser" by (simp add: w9_def)
  have v: "map duplicate (serviceListContainer (stateOf (populateServiceDatabase w9)))
             = [True, True, False]"
    by code_simp
  from C9_duplicates_flagged_not_rejected[OF h] h v show ?thesis by blast
qed

subsection \<open>C10: a refetch replaces the cache\<close>

lemma deliver_fetchTasks_tasks:
  assumes "n < length (pending s)" and "snd (pending s ! n) = K_fetchTasks b"
  shows "tasks (deliver e n (Ok (TasksData ts)) s) = map mapBackendTaskToUI ts"
  using assms by (simp add: deliver_def settle_def fulfilled_fetchTasks_tasks)

lemma mapBackendTaskToUI_takenOverBy: "takenOverBy (mapBackendTaskToUI bt) = None"
  by (simp add: mapBackendTaskToUI_def)

lemma answer_shareTask_pending:
  assumes "find_js selected (staffListModal s) = Some it"
  shows "snd (last (pending (answer e (Ok d) (shareTask s)))) = K_fetchTasks True"
proof -
  have eq: "shareTask s = apiFetch POST (ApiTaskShare (sharingTaskId s))
                             (ShareBody (item_staff it)) (K_share (item_staff it)) s"
    using assms by (simp add: shareTask_def)
  show ?thesis
    unfolding eq answer_apiFetch
    by (simp add: settle_def fulfilled_def fetchTasksAndRender_def apiFetch_def Let_def)
qed

lemma answer_saveTask_pending:
  "snd (last (pending (answer e (Ok d) (saveTask s)))) = K_fetchTasks False"
  by (simp add: answer_saveTask_ok fetchTasksAndRender_def apiFetch_def Let_def)

text \<open>
  Claim C10. When the answer to a fetch of the task list arrives with the list, the
  cache becomes the mapped answer, whatever it held: every cached task has
  \<open>takenOverBy\<close> null, and \<open>sharedWith\<close> empty where the answer has no array. So what
  \<open>takeOverTask\<close> wrote is gone after the next fetch, and a successful save (create or
  edit) and a successful share each start such a fetch.
\<close>

theorem C10_refetch_discards_local_state:
  assumes "n < length (pending s)" and "snd (pending s ! n) = K_fetchTasks b"
  shows "tasks (deliver e n (Ok (TasksData ts)) s) = map mapBackendTaskToUI ts
       \<and> (\<forall>t\<in>set (tasks (deliver e n (Ok (TasksData ts)) s)). takenOverBy t = None)
       \<and> (\<forall>bt\<in>set ts. shared_with bt = None \<longrightarrow> sharedWith (mapBackendTaskToUI bt) = [])
       \<and> tasks (deliver e n (Ok (TasksData ts)) (stateOf (takeOverTask i s)))
           = map mapBackendTaskToUI ts
       \<and> snd (last (pending (answer e (Ok d) (saveTask s')))) = K_fetchTasks False
       \<and> (find_js selected (staffListModal s') \<noteq> None \<longrightarrow>
            snd (last (pending (answer e (Ok d) (shareTask s')))) = K_fetchTasks True)"
proof -
  have 1: "tasks (deliver e n (Ok (TasksData ts)) s) = map mapBackendTaskToUI ts"
    by (rule deliver_fetchTasks_tasks[OF assms])
  have 2: "\<forall>t\<in>set (tasks (deliver e n (Ok (TasksData ts)) s)). takenOverBy t = None"
    unfolding 1 by (simp add: mapBackendTaskToUI_takenOverBy)
  have 3: "\<forall>bt\<in>set ts. shared_with bt = None \<longrightarrow> sharedWith (mapBackendTaskToUI bt) = []"
    by (simp add: mapBackendTaskToUI_def)
  have p: "pending (stateOf (takeOverTask i s)) = pending s" by (rule takeOverTask_frame(2))
  have 4: "tasks (deliver e n (Ok (TasksData ts)) (stateOf (takeOverTask i s)))
           = map mapBackendTaskToUI ts"
    by (rule deliver_fetchTasks_tasks) (simp_all add: p assms)
  have 5: "snd (last (pending (answer e (Ok d) (saveTask s')))) = K_fetchTasks False"
    by (rule answer_saveTask_pending)
  have 6: "find_js selected (staffListModal s') \<noteq> None \<longrightarrow>
            snd (last (pending (answer e (Ok d) (shareTask s')))) = K_fetchTasks True"
    using answer_shareTask_pending[of s' _ e d] by auto
  from 1 2 3 4 5 6 show ?thesis by (intro conjI)
qed

theorem C10_witness:
  "0 < length (pending w10) \<and> snd (pending w10 ! 0) = K_fetchTasks False
   \<and> map takenOverBy (tasks w10) = [None, Some ''alice'']
   \<and> tasks (deliver (utc 0) 0
               (Ok (TasksData [exampleBackendTask 1 ''Pending'' ''bob'' None,
                               exampleBackendTask 2 ''Pending'' ''carol'' None])) w10)
       = map mapBackendTaskToUI [exampleBackendTask 1 ''Pending'' ''bob'' None,
                                 exampleBackendTask 2 ''Pending'' ''carol'' None]
   \<and> map takenOverBy
         (tasks (deliver (utc 0) 0
                   (Ok (TasksData [exampleBackendTask 1 ''Pending'' ''bob'' None,
                                   exampleBackendTask 2 ''Pending'' ''carol'' None])) w10))
       = [None, None]"
proof -
  have h: "0 < length (pending w10)" "snd (pending w10 ! 0) = K_fetchTasks False"
    by code_simp+
  have v: "map takenOverBy (tasks w10) = [None, Some ''alice'']" by code_simp
  note c = C10_refetch_discards_local_state[OF h, of "utc 0"
             "[exampleBackendTask 1 ''Pending'' ''bob'' None,
               exampleBackendTask 2 ''Pending'' ''carol'' None]"]
  from c have t: "tasks (deliver (utc 0) 0
               (Ok (TasksData [exampleBackendTask 1 ''Pending'' ''bob'' None,
                               exampleBackendTask 2 ''Pending'' ''carol'' None])) w10)
       = map mapBackendTaskToUI [exampleBackendTask 1 ''Pending'' ''bob'' None,
                                 exampleBackendTask 2 ''Pending'' ''carol'' None]"
    by blast
  have n: "map takenOverBy
         (tasks (deliver (utc 0) 0
                   (Ok (TasksData [exampleBackendTask 1 ''Pending'' ''bob'' None,
                                   exampleBackendTask 2 ''Pending'' ''carol'' None])) w10))
       = [None, None]"
    unfolding t by (simp add: mapBackendTaskToUI_takenOverBy)
  from h v t n show ?thesis by blast
qed

subsection \<open>C8: the share modal and the assignee\<close>

lemma find_js_clicked:
  "n < length xs \<Longrightarrow>
   find_js selected ((map (\<lambda>it. it\<lparr>selected := False\<rparr>) xs)[n := (xs ! n)\<lparr>selected := True\<rparr>])
     = Some ((xs ! n)\<lparr>selected := True\<rparr>)"
proof (induction xs arbitrary: n)
  case Nil
  then show ?case by simp
next
  case (Cons x xs)
  show ?case
  proof (cases n)
    case 0
    then show ?thesis by simp
  next
    case (Suc m)
    then show ?thesis using Cons by simp
  qed
qed

lemma find_js_none: "\<forall>x\<in>set xs. \<not> P x \<Longrightarrow> find_js P xs = None"
  by (induction xs) auto

lemma showShareModal_found:
  assumes "find_js (\<lambda>t. task_id t = i) (tasks s) = Some t"
  shows "showShareModal i s
           = Normal (openModal ShareTaskModal
                       (s\<lparr>sharingTaskId := Some i, staffListModal := shareTargets s t\<rparr>))"
  using assms by (simp add: showShareModal_def shareTargets_def Let_def)

lemma shareTargets_not_assignee:
  "it \<in> set (shareTargets s t) \<Longrightarrow>
   item_staff it \<noteq> assignedTo t
   \<and> (\<exists>st\<in>set (STAFF_LIST s). staff_name st = item_staff it \<and> staff_role st = ''staff'')"
  by (auto simp: shareTargets_def)

lemma shareTargets_unselected: "find_js selected (shareTargets s t) = None"
  by (rule find_js_none) (auto simp: shareTargets_def)

text \<open>
  Claim C8 as stated fails in its first part: the client takes \<open>shared_with\<close> from the
  backend as it comes, so a cached task's \<open>sharedWith\<close> contains its \<open>assignedTo\<close>
  whenever the answer says so.
\<close>

theorem C8_counterexample:
  "assignedTo (mapBackendTaskToUI sharedWithAssignee)
     \<in> set (sharedWith (mapBackendTaskToUI sharedWithAssignee))
   \<and> tasks (answer (utc 0) (Ok (TasksData [sharedWithAssignee]))
             (fetchTasksAndRender False pageLoad))
       = [mapBackendTaskToUI sharedWithAssignee]"
  by code_simp

text \<open>
  Claim C8, amended. For a task of the cache, the share modal lists only names of
  staff-role users of the staff list that differ from the task's \<open>assignedTo\<close>; with
  nothing selected \<open>shareTask\<close> sends nothing, and after a click on an item it sends
  \<open>POST /api/tasks/:id/share\<close> for that task with the item's name as \<open>staff_name\<close>, which
  is not the assignee's. The client does not check \<open>sharedWith\<close> against \<open>assignedTo\<close>
  on the tasks it receives.
\<close>

theorem C8_share_never_names_the_assignee:
  assumes "find_js (\<lambda>t. task_id t = i) (tasks s) = Some t"
  shows "\<exists>s'. showShareModal i s = Normal s'
           \<and> (\<forall>it\<in>set (staffListModal s').
                 item_staff it \<noteq> assignedTo t
                 \<and> (\<exists>st\<in>set (STAFF_LIST s).
                       staff_name st = item_staff it \<and> staff_role st = ''staff''))
           \<and> requests (shareTask s') = requests s
           \<and> (\<forall>n < length (staffListModal s').
                 requests (shareTask (clickStaffItem n s'))
                   = requests s
                     @ [\<lparr>req_method = POST, req_url = ApiTaskShare (Some i),
                         req_body = ShareBody (item_staff (staffListModal s' ! n))\<rparr>]
                 \<and> item_staff (staffListModal s' ! n) \<noteq> assignedTo t)"
proof -
  let ?s' = "openModal ShareTaskModal
               (s\<lparr>sharingTaskId := Some i, staffListModal := shareTargets s t\<rparr>)"
  have m: "staffListModal ?s' = shareTargets s t" "requests ?s' = requests s"
    "sharingTaskId ?s' = Some i"
    by (simp_all add: openModal_def)
  have 1: "showShareModal i s = Normal ?s'" by (rule showShareModal_found[OF assms])
  have 2: "\<forall>it\<in>set (staffListModal ?s').
                 item_staff it \<noteq> assignedTo t
                 \<and> (\<exists>st\<in>set (STAFF_LIST s).
                       staff_name st = item_staff it \<and> staff_role st = ''staff'')"
    unfolding m using shareTargets_not_assignee[of _ s t] by blast
  have 3: "requests (shareTask ?s') = requests s"
    by (simp add: shareTask_def m shareTargets_unselected showToast_def)
  have 4: "\<forall>n < length (staffListModal ?s').
                 requests (shareTask (clickStaffItem n ?s'))
                   = requests s
                     @ [\<lparr>req_method = POST, req_url = ApiTaskShare (Some i),
                         req_body = ShareBody (item_staff (staffListModal ?s' ! n))\<rparr>]
                 \<and> item_staff (staffListModal ?s' ! n) \<noteq> assignedTo t"
  proof (intro allI impI)
    fix n assume n: "n < length (staffListModal ?s')"
    let ?c = "clickStaffItem n ?s'"
    have c: "staffListModal ?c
               = (map (\<lambda>it. it\<lparr>selected := False\<rparr>) (shareTargets s t))
                   [n := (shareTargets s t ! n)\<lparr>selected := True\<rparr>]"
      "requests ?c = requests s" "sharingTaskId ?c = Some i"
      using n by (simp_all add: clickStaffItem_def m)
    have f: "find_js selected (staffListModal ?c) = Some ((shareTargets s t ! n)\<lparr>selected := True\<rparr>)"
      unfolding c using n find_js_clicked[of n "shareTargets s t"] by (simp add: m)
    have r: "requests (shareTask ?c)
               = requests s
                 @ [\<lparr>req_method = POST, req_url = ApiTaskShare (Some i),
                     req_body = ShareBody (item_staff (shareTargets s t ! n))\<rparr>]"
      unfolding shareTask_def f by (simp add: c(2,3) apiFetch_def Let_def)
    have "shareTargets s t ! n \<in> set (shareTargets s t)" using n by (simp add: m)
    then have "item_staff (shareTargets s t ! n) \<noteq> assignedTo t"
      using shareTargets_not_assignee by blast
    then show "requests (shareTask ?c)
                   = requests s
                     @ [\<lparr>req_method = POST, req_url = ApiTaskShare (Some i),
                         req_body = ShareBody (item_staff (staffListModal ?s' ! n))\<rparr>]
                 \<and> item_staff (staffListModal ?s' ! n) \<noteq> assignedTo t"
      using r by (simp add: m)
  qed
  from 1 2 3 4 show ?thesis by blast
qed

theorem C8_witness:
  "find_js (\<lambda>t. task_id t = 1) (tasks w8) = Some (exampleTask 1 ''Pending'' ''alice'' ''B1'' (Some 0))
   \<and> map item_staff (staffListModal (stateOf (showShareModal 1 w8))) = [''bob'']
   \<and> (\<exists>s'. showShareModal 1 w8 = Normal s'
         \<and> (\<forall>it\<in>set (staffListModal s'). item_staff it \<noteq> ''alice''))"
proof -
  have h: "find_js (\<lambda>t. task_id t = 1) (tasks w8)
             = Some (exampleTask 1 ''Pending'' ''alice'' ''B1'' (Some 0))"
    by (simp add: w8_def exampleTask_def)
  have a: "assignedTo (exampleTask 1 ''Pending'' ''alice'' ''B1'' (Some 0)) = ''alice''"
    by (simp add: exampleTask_def)
  have v: "map item_staff (staffListModal (stateOf (showShareModal 1 w8))) = [''bob'']"
    by code_simp
  from C8_share_never_names_the_assignee[OF h] a h v show ?thesis by auto
qed

subsection \<open>C6: a failed status change\<close>

lemma revertIn_tasks: "revertIn c i v s = Some s' \<Longrightarrow> tasks s' = tasks s"
  by (cases c) auto

lemma revertSelect_tasks: "tasks (revertSelect cs i v s) = tasks s"
proof (induction cs)
  case Nil
  then show ?case by simp
next
  case (Cons c cs)
  then show ?case by (auto split: option.splits dest: revertIn_tasks)
qed

lemma handleLogout_tasks: "tasks (handleLogout s) = tasks s"
  by (simp add: handleLogout_def showToast_def showLogin_def apiFetch_def Let_def)

text \<open>
  The part of claim C6 about the cache holds: a failed status change leaves every cached
  task as it was, and a successful one, answered before anything else happens, sets
  the status of the task.
\<close>

lemma updateTaskStatus_failure_keeps_cache:
  assumes "findIndex (\<lambda>t. task_id t = i) (tasks s) = Some n"
  shows "tasks (answer e (Failed m) (updateTaskStatus i newStatus s)) = tasks s"
    and "tasks (answer e Unauthorized (updateTaskStatus i newStatus s)) = tasks s"
proof -
  have eq: "updateTaskStatus i newStatus s
              = apiFetch PUT (ApiTask i) (StatusBody newStatus)
                  (K_status i n (status (tasks s ! n)) newStatus) s"
    using assms by (simp add: updateTaskStatus_def)
  show "tasks (answer e (Failed m) (updateTaskStatus i newStatus s)) = tasks s"
    unfolding eq answer_apiFetch
    by (simp add: settle_def rejected_def revertSelect_tasks showToast_def)
  show "tasks (answer e Unauthorized (updateTaskStatus i newStatus s)) = tasks s"
    unfolding eq answer_apiFetch
    by (simp add: settle_def rejected_def revertSelect_tasks showToast_def handleLogout_tasks)
qed

lemma updateTaskStatus_success_sets_status:
  assumes "findIndex (\<lambda>t. task_id t = i) (tasks s) = Some n"
  shows "status (tasks (answer e (Ok d) (updateTaskStatus i newStatus s)) ! n) = newStatus
       \<and> task_id (tasks (answer e (Ok d) (updateTaskStatus i newStatus s)) ! n) = i"
proof -
  have b: "n < length (tasks s)" "task_id (tasks s ! n) = i"
    using findIndex_Some[OF assms] by simp_all
  have eq: "updateTaskStatus i newStatus s
              = apiFetch PUT (ApiTask i) (StatusBody newStatus)
                  (K_status i n (status (tasks s ! n)) newStatus) s"
    using assms by (simp add: updateTaskStatus_def)
  let ?t' = "(tasks s ! n)\<lparr>status := newStatus, edited := True,
                editReason := Some (''Status changed from '' @ status (tasks s ! n) @ '' to ''
                                    @ newStatus)\<rparr>"
  let ?s1 = "openModal StatusUpdateModal
               (s\<lparr>requests := requests s
                     @ [\<lparr>req_method = PUT, req_url = ApiTask i, req_body = StatusBody newStatus\<rparr>],
                  tasks := (tasks s)[n := ?t'],
                  statusUpdateText := Some (orderNo ?t', newStatus)\<rparr>)"
  have t1: "tasks (stateOf (renderTasks e ?s1)) = (tasks s)[n := ?t']"
    by (simp add: renderTasks_frame openModal_def)
  have "tasks (answer e (Ok d) (updateTaskStatus i newStatus s)) = (tasks s)[n := ?t']"
  proof (cases "renderTasks e ?s1")
    case (Normal s')
    then show ?thesis
      unfolding eq answer_apiFetch using t1 b
      by (simp add: settle_def fulfilled_def Let_def showToast_def updateStaffPanel_frame
          updateDashboard_def apiFetch_def)
  next
    case (Throw err s')
    then show ?thesis
      unfolding eq answer_apiFetch using t1 b
      by (simp add: settle_def fulfilled_def Let_def rejected_def revertSelect_tasks
          showToast_def)
  qed
  then show ?thesis using b by simp
qed

text \<open>
  Claim C6 holds for the cache and fails for the control. The handler of a failure
  assigns the old status to the first status select of the task in document order, not
  to the select that was changed. With the staff panel populated, a task of the user
  has a select under All Tasks and one under My Tasks: whichever comes second in the
  document keeps the new value when the user changes it and the request fails, while
  the cache keeps the old status. Both document orders are evaluated.
\<close>

theorem C6_failing_input:
  "shownStatus (allTasksContainer w6) = [Some ''Pending'']
   \<and> shownStatus (myTasksContainer w6) = [Some ''Pending'']
   \<and> map status (tasks (answer (utc 0) (Failed ''Server error'')
                          (changeStatusSelect MyTasksContainer 0 ''Completed'' w6)))
       = [''Pending'']
   \<and> shownStatus (myTasksContainer (answer (utc 0) (Failed ''Server error'')
                          (changeStatusSelect MyTasksContainer 0 ''Completed'' w6)))
       = [Some ''Completed'']
   \<and> map status (tasks (answer otherOrder (Failed ''Server error'')
                          (changeStatusSelect AllTasksContainer 0 ''Completed'' w6)))
       = [''Pending'']
   \<and> shownStatus (allTasksContainer (answer otherOrder (Failed ''Server error'')
                          (changeStatusSelect AllTasksContainer 0 ''Completed'' w6)))
       = [Some ''Completed'']"
  by code_simp

subsection \<open>C4: what a staff session shows\<close>

text \<open>
  What holds of claim C4: every element built while the session's role is staff is
  without a delete button for a task and without a revenue figure.
\<close>

lemma staff_builds_no_delete_button:
  assumes "currentUser s = Some u" and "role u = ''staff''"
  shows "createTaskRow s t b = Inr r \<Longrightarrow> DeleteBtn \<notin> set (controls r)"
    and "DeleteBtn \<notin> set (card_controls (createTaskCard u t ty))"
  using assms
  by (auto simp: createTaskRow_def createTaskCard_def statusSelect_def Let_def
      split: if_splits)

lemma staff_builds_no_revenue:
  assumes "currentUser s = Some u" and "role u = ''staff''"
  shows "createWinnerCard s iw = Inr c \<Longrightarrow> card_revenue c = None"
    and "createReportCard s n = Inr rc \<Longrightarrow> report_revenue rc = None"
    and "RevenueCard \<in> hiddenEls (showRoleElements u s)"
  using assms
  by (auto simp: createWinnerCard_def createReportCard_def showRoleElements_def Let_def)

text \<open>
  Claim C4 fails on the states the page reaches: logging out hides the pages and
  clears nothing, and \<open>showApp\<close> shows again the page that was current. After an admin
  session in the same tab, a staff session shows the Tasks page with the admin's rows,
  delete buttons included, and the dashboard with the admin's top performers, revenue
  included, until an answer to a new fetch arrives.
\<close>

theorem C4_failing_input:
  "map snd (pending adminLoggedIn)
     = [K_usersDropdown, K_usersList, K_stats, K_fetchTasks False, K_services, K_stats]
   \<and> map_option role (currentUser staffAfterAdmin) = Some ''staff''
   \<and> TasksPage \<notin> hiddenEls staffAfterAdmin
   \<and> Navigation \<notin> hiddenEls staffAfterAdmin
   \<and> map controls (taskTableBody staffAfterAdmin) = [[EditBtn, DeleteBtn, ShareBtn]]
   \<and> map_option role (currentUser staffAfterDashboard) = Some ''staff''
   \<and> DashboardPage \<notin> hiddenEls staffAfterDashboard
   \<and> WinnersContainer \<notin> hiddenEls staffAfterDashboard
   \<and> map card_revenue (winnersCards staffAfterDashboard) = [Some 500]"
  by code_simp

end
